theory Spec2Isabelle
  imports Complex_Main "HOL-Library.Sublist"
begin

section \<open>Python values\<close>

text \<open>
  The dashboard (\<^verbatim>\<open>aqi_dashboard.py\<close>) handles values decoded from JSON: \<^verbatim>\<open>None\<close>,
  booleans, integers, floats, strings, lists and dictionaries. A float is modelled by
  the number it denotes: a finite float is a real number, and the three special values
  are separate constructors. The program only compares floats with integer literals and
  tests them for NaN, and Python carries out both exactly, so no rounding enters the
  model. A string is the list of its characters, and a dictionary is the list of its
  items, in which every key occurs once.
\<close>

datatype pyfloat = Finite real | PosInf | NegInf | NaN

datatype pyval =
    PNone
  | PBool bool
  | PInt int
  | PFloat pyfloat
  | PStr string
  | PList "pyval list"
  | PDict "(string \<times> pyval) list"

text \<open>Python's \<^verbatim>\<open>x <= y\<close> and \<^verbatim>\<open>x < y\<close> on float values: every comparison with NaN is false.\<close>

fun fle :: "pyfloat \<Rightarrow> pyfloat \<Rightarrow> bool" where
  "fle NaN _ = False"
| "fle _ NaN = False"
| "fle NegInf _ = True"
| "fle _ PosInf = True"
| "fle (Finite x) (Finite y) = (x \<le> y)"
| "fle _ _ = False"

fun flt :: "pyfloat \<Rightarrow> pyfloat \<Rightarrow> bool" where
  "flt NaN _ = False"
| "flt _ NaN = False"
| "flt (Finite x) (Finite y) = (x < y)"
| "flt NegInf NegInf = False"
| "flt NegInf _ = True"
| "flt PosInf _ = False"
| "flt _ PosInf = True"
| "flt _ _ = False"

text \<open>\<^verbatim>\<open>isinstance(v, (int, float))\<close>; \<^verbatim>\<open>bool\<close> is a subclass of \<^verbatim>\<open>int\<close>.\<close>

fun is_int_or_float :: "pyval \<Rightarrow> bool" where
  "is_int_or_float (PBool _) = True"
| "is_int_or_float (PInt _) = True"
| "is_int_or_float (PFloat _) = True"
| "is_int_or_float _ = False"

text \<open>
  The number a numeric value stands for in a comparison (\<^verbatim>\<open>True\<close> is 1, \<^verbatim>\<open>False\<close> is 0;
  Python compares an int with a float by their exact values).
\<close>

fun num :: "pyval \<Rightarrow> pyfloat" where
  "num (PBool b) = Finite (if b then 1 else 0)"
| "num (PInt n) = Finite (of_int n)"
| "num (PFloat f) = f"
| "num _ = NaN"

text \<open>Truthiness, as \<^verbatim>\<open>if v:\<close> and \<^verbatim>\<open>not v\<close> test it.\<close>

fun truthy :: "pyval \<Rightarrow> bool" where
  "truthy PNone = False"
| "truthy (PBool b) = b"
| "truthy (PInt n) = (n \<noteq> 0)"
| "truthy (PFloat f) = (f \<noteq> Finite 0)"
| "truthy (PStr s) = (s \<noteq> [])"
| "truthy (PList xs) = (xs \<noteq> [])"
| "truthy (PDict kvs) = (kvs \<noteq> [])"

section \<open>The category classifier\<close>

text \<open>
  \<^verbatim>\<open>get_aqi_category(aqi)\<close>, lines 64-80: a chain of \<^verbatim>\<open>if\<close> statements, the first
  that holds returns; the last line returns the grey "Unknown" pair for a number that
  no range holds.
\<close>

definition unknown_category :: "string \<times> string" where
  "unknown_category = (''Unknown'', ''#808080'')"

definition between :: "int \<Rightarrow> pyfloat \<Rightarrow> int \<Rightarrow> bool" where
  \<comment> \<open>the chained comparison \<^verbatim>\<open>lo <= aqi <= hi\<close>\<close>
  "between lo a hi = (fle (Finite (of_int lo)) a \<and> fle a (Finite (of_int hi)))"

definition get_aqi_category :: "pyval \<Rightarrow> string \<times> string" where
  "get_aqi_category aqi =
     (if aqi = PNone \<or> \<not> is_int_or_float aqi then (''Unknown'', ''#808080'')
      else if between 0 (num aqi) 50 then (''Good'', ''#009966'')
      else if between 51 (num aqi) 100 then (''Moderate'', ''#FFDE33'')
      else if between 101 (num aqi) 150 then (''Unhealthy for Sensitive Groups'', ''#FF9933'')
      else if between 151 (num aqi) 200 then (''Unhealthy'', ''#CC0033'')
      else if between 201 (num aqi) 300 then (''Very Unhealthy'', ''#660099'')
      else if flt (Finite 300) (num aqi) then (''Hazardous'', ''#7E0023'')
      else (''Unknown'', ''#808080''))"

text \<open>
  The table of section 4.1 of the specification, written from its words: five closed
  ranges and one open one, each with its label and colour.
\<close>

datatype aqi_range = Range int int | Above int

fun in_range :: "pyfloat \<Rightarrow> aqi_range \<Rightarrow> bool" where
  "in_range a (Range lo hi) = (fle (Finite (of_int lo)) a \<and> fle a (Finite (of_int hi)))"
| "in_range a (Above lo) = flt (Finite (of_int lo)) a"

definition category_table :: "(aqi_range \<times> string \<times> string) list" where
  "category_table =
     [(Range 0 50, ''Good'', ''#009966''),
      (Range 51 100, ''Moderate'', ''#FFDE33''),
      (Range 101 150, ''Unhealthy for Sensitive Groups'', ''#FF9933''),
      (Range 151 200, ''Unhealthy'', ''#CC0033''),
      (Range 201 300, ''Very Unhealthy'', ''#660099''),
      (Above 300, ''Hazardous'', ''#7E0023'')]"

section \<open>Exceptions and the operations that raise them\<close>

text \<open>
  An exception is a value: its class and the text \<^verbatim>\<open>str(e)\<close> gives. The first constructor
  stands for \<^verbatim>\<open>requests.exceptions.RequestException\<close> and all its subclasses (timeouts,
  connection errors, \<^verbatim>\<open>HTTPError\<close>), the last for any other subclass of \<^verbatim>\<open>Exception\<close>.
  \<^verbatim>\<open>KeyboardInterrupt\<close> and \<^verbatim>\<open>SystemExit\<close>, which are not subclasses of \<^verbatim>\<open>Exception\<close>,
  are signals to the process and not part of the model.
\<close>

datatype exn =
    RequestException string
  | AttributeError string
  | KeyError string
  | IndexError string
  | TypeError string
  | ValueError string
  | OtherException string

fun str_exn :: "exn \<Rightarrow> string" where
  "str_exn (RequestException m) = m"
| "str_exn (AttributeError m) = m"
| "str_exn (KeyError m) = m"
| "str_exn (IndexError m) = m"
| "str_exn (TypeError m) = m"
| "str_exn (ValueError m) = m"
| "str_exn (OtherException m) = m"

fun is_RequestException :: "exn \<Rightarrow> bool" where
  "is_RequestException (RequestException _) = True"
| "is_RequestException _ = False"

text \<open>Sequencing of steps that may raise: the first exception ends the computation.\<close>

fun and_then :: "exn + 'a \<Rightarrow> ('a \<Rightarrow> exn + 'b) \<Rightarrow> exn + 'b" where
  "and_then (Inl e) f = Inl e"
| "and_then (Inr x) f = f x"

fun type_name :: "pyval \<Rightarrow> string" where
  "type_name PNone = ''NoneType''"
| "type_name (PBool _) = ''bool''"
| "type_name (PInt _) = ''int''"
| "type_name (PFloat _) = ''float''"
| "type_name (PStr _) = ''str''"
| "type_name (PList _) = ''list''"
| "type_name (PDict _) = ''dict''"

definition quoted :: "string \<Rightarrow> string" where
  "quoted s = CHR 0x27 # s @ [CHR 0x27]"

text \<open>
  \<^verbatim>\<open>v.get(key, default)\<close>: only a dictionary has the method; on any other value the
  attribute lookup raises \<^verbatim>\<open>AttributeError\<close>. The default is used when the key is
  absent, not when it is present with the value \<^verbatim>\<open>None\<close>.
\<close>

fun py_get :: "pyval \<Rightarrow> string \<Rightarrow> pyval \<Rightarrow> exn + pyval" where
  "py_get (PDict kvs) k d = Inr (case map_of kvs k of Some v \<Rightarrow> v | None \<Rightarrow> d)"
| "py_get v k d =
     Inl (AttributeError (quoted (type_name v) @ '' object has no attribute '' @ quoted ''get''))"

text \<open>\<^verbatim>\<open>v[key]\<close> with a string key, as in \<^verbatim>\<open>data["data"]\<close>.\<close>

fun py_getitem :: "pyval \<Rightarrow> string \<Rightarrow> exn + pyval" where
  "py_getitem (PDict kvs) k =
     (case map_of kvs k of Some v \<Rightarrow> Inr v | None \<Rightarrow> Inl (KeyError (quoted k)))"
| "py_getitem v k = Inl (TypeError (quoted (type_name v) @ '' object is not subscriptable''))"

text \<open>
  \<^verbatim>\<open>v[i]\<close> with the integer literal 0 or 1, as in \<^verbatim>\<open>...get("geo", [None, None])[0]\<close>.
  A list or a string shorter than \<open>i + 1\<close> raises \<^verbatim>\<open>IndexError\<close>; a dictionary decoded
  from JSON has string keys only, so an integer key raises \<^verbatim>\<open>KeyError\<close>; the other
  values are not subscriptable.
\<close>

fun py_index :: "pyval \<Rightarrow> nat \<Rightarrow> exn + pyval" where
  "py_index (PList xs) i =
     (if i < length xs then Inr (xs ! i) else Inl (IndexError ''list index out of range''))"
| "py_index (PStr s) i =
     (if i < length s then Inr (PStr [s ! i]) else Inl (IndexError ''string index out of range''))"
| "py_index (PDict kvs) i = Inl (KeyError (if i = 0 then ''0'' else ''1''))"
| "py_index v i = Inl (TypeError (quoted (type_name v) @ '' object is not subscriptable''))"

section \<open>The city reading fetcher\<close>

text \<open>
  The network is a parameter: for each URL, what \<^verbatim>\<open>requests.get(url, timeout=10)\<close> does,
  an exception or a response. A response carries its status code, the text of the
  \<^verbatim>\<open>HTTPError\<close> that \<^verbatim>\<open>raise_for_status\<close> builds for it, and what \<^verbatim>\<open>response.json()\<close>
  returns or raises.
\<close>

record response =
  status_code :: nat
  http_error :: string
  json :: "exn + pyval"

type_synonym network = "string \<Rightarrow> exn + response"

text \<open>
  What the program does to the outside, in the order it does it: a GET request to a
  URL, the progress bar set to \<open>k / n\<close> with a text, the pause of half a second, the
  removal of the progress bar, and a message shown by \<^verbatim>\<open>st.error\<close>.
\<close>

datatype event =
    HttpGet string
  | Progress nat nat string
  | Sleep
  | ProgressEmpty
  | StError string

definition raise_for_status :: "response \<Rightarrow> exn + unit" where
  \<comment> \<open>raises for the status codes 4xx and 5xx\<close>
  "raise_for_status r =
     (if 400 \<le> status_code r \<and> status_code r < 600
      then Inl (RequestException (http_error r)) else Inr ())"

definition not_token :: "string option \<Rightarrow> bool" where
  \<comment> \<open>\<^verbatim>\<open>not API_TOKEN\<close>: the variable is unset (\<^verbatim>\<open>None\<close>) or the empty string\<close>
  "not_token t = (case t of None \<Rightarrow> True | Some s \<Rightarrow> s = [])"

definition feed_url :: "string \<Rightarrow> string option \<Rightarrow> string" where
  "feed_url city_name t =
     ''https://api.waqi.info/feed/'' @ city_name @ ''/?token=''
       @ (case t of None \<Rightarrow> ''None'' | Some s \<Rightarrow> s)"

text \<open>The body of the \<^verbatim>\<open>try\<close> statement, lines 51-57.\<close>

definition try_body :: "network \<Rightarrow> string \<Rightarrow> exn + (pyval \<times> pyval)" where
  "try_body net url =
     and_then (net url) (\<lambda>response.
     and_then (raise_for_status response) (\<lambda>_.
     and_then (json response) (\<lambda>data.
     and_then (py_get data ''status'' PNone) (\<lambda>status.
       if status = PStr ''ok''
       then and_then (py_getitem data ''data'') (\<lambda>d. Inr (d, PNone))
       else and_then (py_get data ''data'' (PStr ''Unknown error from API.''))
              (\<lambda>m. Inr (PNone, m))))))"

text \<open>
  \<^verbatim>\<open>get_aqi_data(city_name)\<close>, lines 44-61, with the global \<^verbatim>\<open>API_TOKEN\<close> as a parameter.
  The result is the returned pair, or the exception that leaves the function, and the
  requests sent.
\<close>

definition get_aqi_data ::
  "string option \<Rightarrow> network \<Rightarrow> string \<Rightarrow> (exn + (pyval \<times> pyval)) \<times> event list" where
  "get_aqi_data API_TOKEN net city_name =
     (if not_token API_TOKEN
      then (Inr (PNone, PStr ''API Token not configured. Please set the AQI_API_TOKEN environment variable.''), [])
      else let url = feed_url city_name API_TOKEN in
        ((case try_body net url of
            Inr r \<Rightarrow> Inr r
          | Inl e \<Rightarrow>
              if is_RequestException e
              then Inr (PNone, PStr (''Network error: '' @ str_exn e))
              else Inr (PNone, PStr (''An unexpected error occurred: '' @ str_exn e))),
         [HttpGet url]))"

section \<open>The batch collector\<close>

text \<open>
  A row of the table: the five keys of \<^verbatim>\<open>data_point\<close> and the two columns that line 143
  adds, \<open>None\<close> while the table has no such column.
\<close>

record row =
  City :: string
  AQI :: pyval
  Latitude :: pyval
  Longitude :: pyval
  Timestamp :: pyval
  Category :: "string option"
  Color :: "string option"

text \<open>
  Lines 97-103. The dictionary display evaluates its values in order; none of the
  lookups is inside a \<^verbatim>\<open>try\<close>.
\<close>

definition data_point :: "string \<Rightarrow> pyval \<Rightarrow> exn + row" where
  "data_point city_display_name aqi_data =
     and_then (py_get aqi_data ''aqi'' PNone) (\<lambda>aqi.
     and_then (py_get aqi_data ''city'' (PDict [])) (\<lambda>city.
     and_then (py_get city ''geo'' (PList [PNone, PNone])) (\<lambda>geo.
     and_then (py_index geo 0) (\<lambda>lat.
     and_then (py_get aqi_data ''city'' (PDict [])) (\<lambda>city'.
     and_then (py_get city' ''geo'' (PList [PNone, PNone])) (\<lambda>geo'.
     and_then (py_index geo' 1) (\<lambda>lon.
     and_then (py_get aqi_data ''time'' (PDict [])) (\<lambda>time.
     and_then (py_get time ''s'' (PStr ''N/A'')) (\<lambda>s.
       Inr \<lparr>City = city_display_name, AQI = aqi, Latitude = lat, Longitude = lon,
            Timestamp = s, Category = None, Color = None\<rparr>)))))))))"

text \<open>
  \<^verbatim>\<open>str(v)\<close> inside an f-string: a string is inserted as it is; the text of any other
  value is Python's own and is a parameter.
\<close>

definition py_str :: "(pyval \<Rightarrow> string) \<Rightarrow> pyval \<Rightarrow> string" where
  "py_str repr v = (case v of PStr s \<Rightarrow> s | _ \<Rightarrow> repr v)"

definition could_not_fetch :: "(pyval \<Rightarrow> string) \<Rightarrow> string \<Rightarrow> pyval \<Rightarrow> string" where
  "could_not_fetch repr city_display_name error =
     ''Could not fetch data for '' @ city_display_name @ '': '' @ py_str repr error"

record collected =
  all_data :: "row list"
  errors :: "string list"
  events :: "event list"

text \<open>
  The loop of lines 92-108 over the items of \<^verbatim>\<open>CITIES\<close>; \<open>n\<close> is \<^verbatim>\<open>len(city_list)\<close> and
  \<open>i\<close> the index \<^verbatim>\<open>enumerate\<close> gives. An exception raised while the row is built
  leaves the loop and the function.
\<close>

fun city_loop ::
  "string option \<Rightarrow> network \<Rightarrow> (pyval \<Rightarrow> string) \<Rightarrow> nat \<Rightarrow> nat \<Rightarrow> (string \<times> string) list
     \<Rightarrow> collected \<Rightarrow> exn + collected" where
  "city_loop tok net repr n i [] st = Inr st"
| "city_loop tok net repr n i ((city_display_name, city_api_name) # rest) st =
     (case get_aqi_data tok net city_api_name of
        (Inl e, evs) \<Rightarrow> Inl e
      | (Inr (aqi_data, error), evs) \<Rightarrow>
          and_then
            (if truthy error
             then Inr (st\<lparr>errors := errors st @ [could_not_fetch repr city_display_name error]\<rparr>)
             else if truthy aqi_data
             then and_then (data_point city_display_name aqi_data)
                    (\<lambda>p. Inr (st\<lparr>all_data := all_data st @ [p]\<rparr>))
             else Inr st)
            (\<lambda>st'. city_loop tok net repr n (i + 1) rest
               (st'\<lparr>events := events st' @ evs @
                  [Progress (i + 1) n (''Fetching data for '' @ city_display_name @ ''...''), Sleep]\<rparr>)))"

definition fatal_message :: string where
  "fatal_message = ''FATAL: AQI_API_TOKEN is not set. The application cannot fetch data. Please get a token from [aqicn.org](https://aqicn.org/data-platform/token/) and set it as an environment variable or in the script.''"

text \<open>
  \<^verbatim>\<open>fetch_all_cities_data()\<close>, lines 84-118, with the globals \<^verbatim>\<open>API_TOKEN\<close> and \<^verbatim>\<open>CITIES\<close>
  as parameters. It returns the table, the list of failure messages and the events.
\<close>

definition fetch_all_cities_data ::
  "string option \<Rightarrow> network \<Rightarrow> (pyval \<Rightarrow> string) \<Rightarrow> (string \<times> string) list
     \<Rightarrow> exn + ((row list \<times> string list) \<times> event list)" where
  "fetch_all_cities_data tok net repr cities =
     and_then
       (city_loop tok net repr (length cities) 0 cities
          \<lparr>all_data = [], errors = [],
           events = [Progress 0 1 ''Fetching data for all cities...'']\<rparr>)
       (\<lambda>st.
          if all_data st = [] \<and> not_token tok
          then Inr (([], []), events st @ [ProgressEmpty, StError fatal_message])
          else Inr ((all_data st, errors st), events st @ [ProgressEmpty]))"

text \<open>Lines 21-39: the token the module sets and reads back, and the city table.\<close>

definition hardcoded_token :: string where
  "hardcoded_token = ''b8a98b4df9ea8410319e6beaeab5a8729da1efd9''"

definition API_TOKEN :: "(string \<rightharpoonup> string) \<Rightarrow> string option" where
  \<comment> \<open>\<open>environ\<close> is \<^verbatim>\<open>os.environ\<close> when the module starts\<close>
  "API_TOKEN environ = (environ(''AQI_API_TOKEN'' \<mapsto> hardcoded_token)) ''AQI_API_TOKEN''"

definition CITIES :: "(string \<times> string) list" where
  "CITIES =
     [(''Delhi'', ''delhi''), (''Mumbai'', ''mumbai''), (''Kolkata'', ''kolkata''),
      (''Chennai'', ''chennai''), (''Bengaluru'', ''bangalore''), (''Hyderabad'', ''hyderabad''),
      (''Pune'', ''pune''), (''Ahmedabad'', ''ahmedabad''), (''Jaipur'', ''jaipur''),
      (''Lucknow'', ''lucknow''), (''Bhopal'', ''bhopal''), (''Patna'', ''patna'')]"

section \<open>The table normalizer\<close>

text \<open>
  The table that \<^verbatim>\<open>fetch_all_cities_data\<close> returns is an object that the module's variable
  \<^verbatim>\<open>df\<close> refers to. The store maps each reference to the rows of the table it holds, so
  that a change made in place is a change of the store at that reference.
\<close>

type_synonym store = "nat \<Rightarrow> row list"

text \<open>A missing cell, as \<^verbatim>\<open>dropna\<close> sees it: \<^verbatim>\<open>None\<close> or NaN.\<close>

definition isna :: "pyval \<Rightarrow> bool" where
  "isna v = (v = PNone \<or> v = PFloat NaN)"

definition has_subset :: "row \<Rightarrow> bool" where
  \<comment> \<open>no cell of \<^verbatim>\<open>subset=['AQI', 'Latitude', 'Longitude']\<close> is missing\<close>
  "has_subset r = (\<not> isna (AQI r) \<and> \<not> isna (Latitude r) \<and> \<not> isna (Longitude r))"

text \<open>
  \<^verbatim>\<open>pd.to_numeric(column, errors='coerce')\<close> is a function of pandas, not of this program,
  and is a parameter \<open>to_numeric\<close> of the model: for a column of cells, the exception it
  raises or the column it returns. What it returns for one cell depends on the whole
  column (an integer comes back as a float beside a NaN), and it raises \<^verbatim>\<open>OverflowError\<close> on
  an integer beyond the range of a float. Nothing is assumed of it but what a theorem
  says.
\<close>

type_synonym coercion = "pyval list \<Rightarrow> exn + pyval list"

text \<open>
  \<^verbatim>\<open>df['AQI'] = column\<close>: the cells of the column replace the AQI of the rows, position by
  position. pandas returns a column as long as the one it was given; a column of
  another length cannot be assigned.
\<close>

definition assign_AQI :: "row list \<Rightarrow> pyval list \<Rightarrow> exn + row list" where
  "assign_AQI rows column =
     (if length column = length rows
      then Inr (map (\<lambda>(r, v). r\<lparr>AQI := v\<rparr>) (zip rows column))
      else Inl (ValueError ''Length of values does not match length of index''))"

text \<open>\<^verbatim>\<open>zip(*pairs)\<close>: nothing for no pairs, else the firsts and the seconds.\<close>

definition zip_star :: "('a \<times> 'a) list \<Rightarrow> 'a list list" where
  "zip_star ps = (if ps = [] then [] else [map fst ps, map snd ps])"

text \<open>
  Lines 141-143, on the table at reference \<open>df\<close>: \<^verbatim>\<open>dropna(..., inplace=True)\<close>; the
  coercion of the AQI column and its assignment, which leave the table as \<^verbatim>\<open>dropna\<close> left
  it when the coercion raises; and the assignment of the two new columns, which
  unpacks \<^verbatim>\<open>zip(*...)\<close> into two targets and raises \<^verbatim>\<open>ValueError\<close> when there is nothing
  to unpack. The result is the exception, if any, and the store as the statements
  left it.
\<close>

definition normalization :: "coercion \<Rightarrow> store \<Rightarrow> nat \<Rightarrow> exn option \<times> store" where
  "normalization to_numeric h df =
     (let h1 = h(df := filter has_subset (h df))
      in case and_then (to_numeric (map AQI (h1 df))) (assign_AQI (h1 df)) of
           Inl e \<Rightarrow> (Some e, h1)
         | Inr rows \<Rightarrow>
             (let h2 = h1(df := rows)
              in case zip_star (map (\<lambda>r. get_aqi_category (AQI r)) (h2 df)) of
                   [labels, colors] \<Rightarrow>
                     (None,
                      h2(df := map (\<lambda>(r, l, c). r\<lparr>Category := Some l, Color := Some c\<rparr>)
                                  (zip (h2 df) (zip labels colors))))
                 | _ \<Rightarrow>
                     (Some (ValueError ''not enough values to unpack (expected 2, got 0)''), h2)))"

text \<open>Lines 137-143: an empty table is reported and left alone.\<close>

definition process_for_display :: "coercion \<Rightarrow> store \<Rightarrow> nat \<Rightarrow> exn option \<times> store" where
  "process_for_display to_numeric h df =
     (if h df = [] then (None, h) else normalization to_numeric h df)"

text \<open>
  What the three statements make of one row whose coerced AQI is \<open>v\<close>, and the columns
  of a row that they do not assign.
\<close>

definition normalized_row :: "row \<Rightarrow> pyval \<Rightarrow> row" where
  "normalized_row r v =
     r\<lparr>AQI := v, Category := Some (fst (get_aqi_category v)),
       Color := Some (snd (get_aqi_category v))\<rparr>"

definition untouched :: "row \<Rightarrow> string \<times> pyval \<times> pyval \<times> pyval" where
  "untouched r = (City r, Latitude r, Longitude r, Timestamp r)"

section \<open>The freshness cache\<close>

text \<open>
  Modelled from the spec: the freshness cache of sections 3 and 4.3. In the source it is
  the decorator \<^verbatim>\<open>@st.cache_data(ttl=600)\<close> of line 83, a function of Streamlit whose code
  is not part of the repository; only the threshold of 600 seconds is read from the
  source. The cache holds at most one entry, the batch of the last refresh and the time
  of that refresh. The clock is a parameter \<open>now\<close>, in seconds, that never runs
  backwards. A call made while the age of the entry is below the threshold returns the
  batch of the entry and does nothing else; any other call runs
  \<^verbatim>\<open>fetch_all_cities_data\<close> and replaces the entry by the new batch, stamped \<open>now\<close>.
\<close>

record cache_entry =
  batch :: "row list \<times> string list"
  stamp :: nat

definition refresh ::
  "nat \<Rightarrow> string option \<Rightarrow> network \<Rightarrow> (pyval \<Rightarrow> string) \<Rightarrow> (string \<times> string) list
     \<Rightarrow> exn + (((row list \<times> string list) \<times> event list) \<times> cache_entry option)" where
  \<comment> \<open>Modelled from the spec: a full refresh that replaces the cached batch\<close>
  "refresh now tok net repr cities =
     and_then (fetch_all_cities_data tok net repr cities)
       (\<lambda>(b, evs). Inr ((b, evs), Some \<lparr>batch = b, stamp = now\<rparr>))"

definition cached_fetch_all_cities_data ::
  "cache_entry option \<Rightarrow> nat \<Rightarrow> string option \<Rightarrow> network \<Rightarrow> (pyval \<Rightarrow> string)
     \<Rightarrow> (string \<times> string) list
     \<Rightarrow> exn + (((row list \<times> string list) \<times> event list) \<times> cache_entry option)" where
  \<comment> \<open>Modelled from the spec: the collector behind its freshness cache\<close>
  "cached_fetch_all_cities_data cache now tok net repr cities =
     (case cache of
        None \<Rightarrow> refresh now tok net repr cities
      | Some e \<Rightarrow>
          if now - stamp e < 600 then Inr ((batch e, []), cache)
          else refresh now tok net repr cities)"

section \<open>Notions used to state the properties\<close>

text \<open>
  What one city contributes to a pass of the collector. The loop tests the pair that
  \<^verbatim>\<open>get_aqi_data\<close> returns with \<^verbatim>\<open>if error:\<close> and \<^verbatim>\<open>elif aqi_data:\<close>; a fetch fails for the
  loop when the first test holds, and succeeds when the second holds and the row can
  be built. \<open>c\<close> is an item of \<^verbatim>\<open>CITIES\<close>, display name first.
\<close>

definition fetch_error :: "string option \<Rightarrow> network \<Rightarrow> string \<Rightarrow> pyval" where
  "fetch_error tok net city_api_name =
     (case fst (get_aqi_data tok net city_api_name) of Inr (d, e) \<Rightarrow> e | Inl _ \<Rightarrow> PNone)"

definition fetch_fails :: "string option \<Rightarrow> network \<Rightarrow> string \<times> string \<Rightarrow> bool" where
  "fetch_fails tok net c =
     (case fst (get_aqi_data tok net (snd c)) of Inr (d, e) \<Rightarrow> truthy e | Inl _ \<Rightarrow> False)"

definition fetch_succeeds :: "string option \<Rightarrow> network \<Rightarrow> string \<times> string \<Rightarrow> bool" where
  "fetch_succeeds tok net c =
     (case fst (get_aqi_data tok net (snd c)) of
        Inr (d, e) \<Rightarrow>
          \<not> truthy e \<and> truthy d \<and> (case data_point (fst c) d of Inr _ \<Rightarrow> True | Inl _ \<Rightarrow> False)
      | Inl _ \<Rightarrow> False)"

definition crashes :: "string option \<Rightarrow> network \<Rightarrow> string \<times> string \<Rightarrow> bool" where
  \<comment> \<open>an exception leaves the loop at this city\<close>
  "crashes tok net c =
     (case fst (get_aqi_data tok net (snd c)) of
        Inr (d, e) \<Rightarrow>
          \<not> truthy e \<and> truthy d \<and> (case data_point (fst c) d of Inr _ \<Rightarrow> False | Inl _ \<Rightarrow> True)
      | Inl _ \<Rightarrow> True)"

definition new_rows :: "string option \<Rightarrow> network \<Rightarrow> string \<times> string \<Rightarrow> row list" where
  "new_rows tok net c =
     (case fst (get_aqi_data tok net (snd c)) of
        Inr (d, e) \<Rightarrow>
          if \<not> truthy e \<and> truthy d
          then (case data_point (fst c) d of Inr p \<Rightarrow> [p] | Inl _ \<Rightarrow> [])
          else []
      | Inl _ \<Rightarrow> [])"

definition failure_entry ::
  "(pyval \<Rightarrow> string) \<Rightarrow> string option \<Rightarrow> network \<Rightarrow> string \<times> string \<Rightarrow> string" where
  "failure_entry repr tok net c = could_not_fetch repr (fst c) (fetch_error tok net (snd c))"

definition new_errors ::
  "(pyval \<Rightarrow> string) \<Rightarrow> string option \<Rightarrow> network \<Rightarrow> string \<times> string \<Rightarrow> string list" where
  "new_errors repr tok net c = (if fetch_fails tok net c then [failure_entry repr tok net c] else [])"

text \<open>The events of the loop from index \<open>i\<close> on, and those it has when no request is sent.\<close>

fun loop_events ::
  "string option \<Rightarrow> network \<Rightarrow> nat \<Rightarrow> nat \<Rightarrow> (string \<times> string) list \<Rightarrow> event list" where
  "loop_events tok net n i [] = []"
| "loop_events tok net n i (c # rest) =
     snd (get_aqi_data tok net (snd c))
       @ [Progress (i + 1) n (''Fetching data for '' @ fst c @ ''...''), Sleep]
       @ loop_events tok net n (i + 1) rest"

fun pacing :: "nat \<Rightarrow> nat \<Rightarrow> (string \<times> string) list \<Rightarrow> event list" where
  "pacing n i [] = []"
| "pacing n i (c # rest) =
     Progress (i + 1) n (''Fetching data for '' @ fst c @ ''...'') # Sleep # pacing n (i + 1) rest"

fun is_HttpGet :: "event \<Rightarrow> bool" where
  "is_HttpGet (HttpGet _) = True"
| "is_HttpGet _ = False"

text \<open>The events of a pass that returned, and the sizes of the batch it returned.\<close>

definition reported :: "exn + ('a \<times> event list) \<Rightarrow> event list" where
  "reported r = (case r of Inl _ \<Rightarrow> [] | Inr (_, evs) \<Rightarrow> evs)"

definition batch_size :: "exn + ((row list \<times> string list) \<times> event list) \<Rightarrow> (nat \<times> nat) option" where
  "batch_size r = (case r of Inl _ \<Rightarrow> None | Inr ((rows, errs), _) \<Rightarrow> Some (length rows, length errs))"

definition cities_of :: "exn + ((row list \<times> string list) \<times> event list) \<Rightarrow> string list" where
  "cities_of r = (case r of Inl _ \<Rightarrow> [] | Inr ((rows, errs), _) \<Rightarrow> map City rows)"

definition failures_of :: "exn + ((row list \<times> string list) \<times> event list) \<Rightarrow> string list" where
  "failures_of r = (case r of Inl _ \<Rightarrow> [] | Inr ((rows, errs), _) \<Rightarrow> errs)"

text \<open>
  The payloads from which lines 97-103 build a row: a dictionary whose \<^verbatim>\<open>city\<close> and
  \<^verbatim>\<open>time\<close>, when present, are dictionaries, and whose \<^verbatim>\<open>geo\<close>, when present, is a list or
  a string of at least two elements.
\<close>

definition two_elements :: "pyval \<Rightarrow> bool" where
  "two_elements g =
     (case g of PList xs \<Rightarrow> 2 \<le> length xs | PStr s \<Rightarrow> 2 \<le> length s | _ \<Rightarrow> False)"

definition well_shaped :: "pyval \<Rightarrow> bool" where
  "well_shaped d =
     (case d of
        PDict kvs \<Rightarrow>
          (case map_of kvs ''city'' of
             None \<Rightarrow> True
           | Some (PDict c) \<Rightarrow> (case map_of c ''geo'' of None \<Rightarrow> True | Some g \<Rightarrow> two_elements g)
           | Some _ \<Rightarrow> False)
          \<and> (case map_of kvs ''time'' of None \<Rightarrow> True | Some (PDict _) \<Rightarrow> True | Some _ \<Rightarrow> False)
      | _ \<Rightarrow> False)"

text \<open>The fields of the row built from a well-shaped payload, with their defaults.\<close>

definition field_or :: "(string \<times> pyval) list \<Rightarrow> string \<Rightarrow> pyval \<Rightarrow> pyval" where
  "field_or kvs k d = (case map_of kvs k of Some v \<Rightarrow> v | None \<Rightarrow> d)"

definition items :: "pyval \<Rightarrow> (string \<times> pyval) list" where
  "items v = (case v of PDict kvs \<Rightarrow> kvs | _ \<Rightarrow> [])"

definition element :: "pyval \<Rightarrow> nat \<Rightarrow> pyval" where
  "element g i = (case g of PList xs \<Rightarrow> xs ! i | PStr s \<Rightarrow> PStr [s ! i] | _ \<Rightarrow> PNone)"

definition geo_of :: "pyval \<Rightarrow> pyval" where
  "geo_of d = field_or (items (field_or (items d) ''city'' (PDict []))) ''geo'' (PList [PNone, PNone])"

section \<open>Example inputs\<close>

text \<open>
  A coercion to run the normalizer on examples. It is pandas' result on the columns
  used below: a column of integers in the range of 64 bits comes back as it is, and the
  column of the one string "-" becomes the column of one NaN. On other columns it
  need not agree with pandas.
\<close>

definition sample_to_numeric :: coercion where
  "sample_to_numeric column =
     Inr (map (\<lambda>v. case v of PInt n \<Rightarrow> PInt n | _ \<Rightarrow> PFloat NaN) column)"

definition no_repr :: "pyval \<Rightarrow> string" where
  "no_repr v = ''<value>''"

definition reading :: "int \<Rightarrow> pyval" where
  "reading a =
     PDict [(''aqi'', PInt a),
            (''city'', PDict [(''geo'', PList [PFloat (Finite 28.6), PFloat (Finite 77.2)])]),
            (''time'', PDict [(''s'', PStr ''2024-01-15 10:00:00'')])]"

definition ok_response :: "pyval \<Rightarrow> response" where
  "ok_response d =
     \<lparr>status_code = 200, http_error = [], json = Inr (PDict [(''status'', PStr ''ok''), (''data'', d)])\<rparr>"

definition api_error_response :: "pyval \<Rightarrow> response" where
  "api_error_response m =
     \<lparr>status_code = 200, http_error = [], json = Inr (PDict [(''status'', PStr ''error''), (''data'', m)])\<rparr>"

definition server_error_response :: "string \<Rightarrow> response" where
  "server_error_response url =
     \<lparr>status_code = 500,
      http_error = ''500 Server Error: Internal Server Error for url: '' @ url,
      json = Inl (OtherException ''Expecting value'')\<rparr>"

definition offline :: network where
  "offline url = Inl (RequestException ''Connection refused'')"

text \<open>
  Two networks for the twelve cities: on both, Mumbai answers 500 and Pune times out;
  Patna's answer has the status "error", with the message "Unknown station" on the
  first and with an empty message on the second; the other nine cities answer with
  a reading.
\<close>

definition three_down :: "pyval \<Rightarrow> network" where
  "three_down patna_message url =
     (if url = feed_url ''mumbai'' (Some hardcoded_token) then Inr (server_error_response url)
      else if url = feed_url ''pune'' (Some hardcoded_token) then Inl (RequestException ''Read timed out.'')
      else if url = feed_url ''patna'' (Some hardcoded_token) then Inr (api_error_response patna_message)
      else Inr (ok_response (reading 75)))"

definition sample_row :: "string \<Rightarrow> pyval \<Rightarrow> pyval \<Rightarrow> row" where
  "sample_row name aqi lat =
     \<lparr>City = name, AQI = aqi, Latitude = lat, Longitude = PFloat (Finite 77.2),
      Timestamp = PStr ''2024-01-15 10:00:00'', Category = None, Color = None\<rparr>"

definition one_table :: "row list \<Rightarrow> store" where
  \<comment> \<open>a store whose reference 0 holds the given table\<close>
  "one_table rows = (\<lambda>_. [])(0 := rows)"

section \<open>The classifier against the table\<close>

lemma numeric_not_None: "is_int_or_float v \<Longrightarrow> v \<noteq> PNone"
  by (cases v) simp_all

lemma category_of_number:
  "is_int_or_float v \<Longrightarrow>
   get_aqi_category v =
     (case find (\<lambda>e. in_range (num v) (fst e)) category_table of
        Some e \<Rightarrow> snd e | None \<Rightarrow> unknown_category)"
  by (simp add: get_aqi_category_def between_def category_table_def unknown_category_def
      numeric_not_None)

lemma category_of_other: "\<not> is_int_or_float v \<Longrightarrow> get_aqi_category v = unknown_category"
  by (simp add: get_aqi_category_def unknown_category_def)

lemma one_range_per_index:
  assumes "0 \<le> a"
  shows "length (filter (\<lambda>e. in_range (Finite (of_int a)) (fst e)) category_table) = 1"
proof -
  from assms consider "a \<le> 50" | "51 \<le> a \<and> a \<le> 100" | "101 \<le> a \<and> a \<le> 150"
    | "151 \<le> a \<and> a \<le> 200" | "201 \<le> a \<and> a \<le> 300" | "300 < a"
    by linarith
  then show ?thesis
    using assms by cases (simp_all add: category_table_def)
qed

lemma category_of_index: "0 \<le> a \<Longrightarrow> get_aqi_category (PInt a) \<in> snd ` set category_table"
proof -
  assume "0 \<le> a"
  then consider "a \<le> 50" | "51 \<le> a \<and> a \<le> 100" | "101 \<le> a \<and> a \<le> 150"
    | "151 \<le> a \<and> a \<le> 200" | "201 \<le> a \<and> a \<le> 300" | "300 < a"
    by linarith
  then show ?thesis
    using \<open>0 \<le> a\<close> by cases (simp_all add: get_aqi_category_def between_def category_table_def)
qed

lemma category_of_negative: "a < 0 \<Longrightarrow> get_aqi_category (PInt a) = unknown_category"
  by (simp add: get_aqi_category_def between_def unknown_category_def)

lemma find_in_table:
  "(case find P category_table of Some e \<Rightarrow> snd e | None \<Rightarrow> unknown_category)
     \<in> insert unknown_category (snd ` set category_table)"
proof (cases "find P category_table")
  case None
  then show ?thesis by simp
next
  case (Some e)
  then have "e \<in> set category_table"
    by (auto simp: find_Some_iff)
  with Some show ?thesis by simp
qed

text \<open>
  C1 (as amended). A number is classified by the first range of the table of section
  4.1 that holds it, and gets the grey "Unknown" pair when no range holds it (a
  negative number, NaN); \<^verbatim>\<open>None\<close> and every value that is not a number get "Unknown" too.
  Every index \<open>a \<ge> 0\<close> lies in exactly one range of the table and is given one of its
  six pairs. Whatever the input, the result is "Unknown" or a pair of the table.
\<close>

theorem get_aqi_category_by_table:
  "(is_int_or_float v \<longrightarrow>
      get_aqi_category v =
        (case find (\<lambda>e. in_range (num v) (fst e)) category_table of
           Some e \<Rightarrow> snd e | None \<Rightarrow> unknown_category))
   \<and> (\<not> is_int_or_float v \<longrightarrow> get_aqi_category v = unknown_category)
   \<and> (\<forall>a. 0 \<le> a \<longrightarrow>
        length (filter (\<lambda>e. in_range (Finite (of_int a)) (fst e)) category_table) = 1
        \<and> get_aqi_category (PInt a) \<in> snd ` set category_table)
   \<and> (\<forall>a. a < 0 \<longrightarrow> get_aqi_category (PInt a) = unknown_category)
   \<and> get_aqi_category v \<in> insert unknown_category (snd ` set category_table)"
proof -
  have "get_aqi_category v \<in> insert unknown_category (snd ` set category_table)"
  proof (cases "is_int_or_float v")
    case True
    then show ?thesis by (simp only: category_of_number find_in_table)
  next
    case False
    then show ?thesis by (simp add: category_of_other)
  qed
  then show ?thesis
    using category_of_number category_of_other one_range_per_index category_of_index
      category_of_negative by blast
qed

theorem get_aqi_category_examples:
  "get_aqi_category (PInt 75) = (''Moderate'', ''#FFDE33'')
   \<and> get_aqi_category (PInt 305) = (''Hazardous'', ''#7E0023'')
   \<and> get_aqi_category (PInt 50) = (''Good'', ''#009966'')
   \<and> get_aqi_category PNone = (''Unknown'', ''#808080'')
   \<and> get_aqi_category (PStr ''x'') = (''Unknown'', ''#808080'')"
proof -
  have "get_aqi_category (PInt 75) = (''Moderate'', ''#FFDE33'')"
    using get_aqi_category_by_table [of "PInt 75"] by (simp add: category_table_def)
  moreover have "get_aqi_category (PInt 305) = (''Hazardous'', ''#7E0023'')"
    using get_aqi_category_by_table [of "PInt 305"] by (simp add: category_table_def)
  moreover have "get_aqi_category (PInt 50) = (''Good'', ''#009966'')"
    using get_aqi_category_by_table [of "PInt 50"] by (simp add: category_table_def)
  moreover have "get_aqi_category PNone = (''Unknown'', ''#808080'')"
    using get_aqi_category_by_table [of PNone] by (simp add: unknown_category_def)
  moreover have "get_aqi_category (PStr ''x'') = (''Unknown'', ''#808080'')"
    using get_aqi_category_by_table [of "PStr ''x''"] by (simp add: unknown_category_def)
  ultimately show ?thesis by blast
qed

theorem negative_index_is_unknown:
  "is_int_or_float (PInt (- 1))
   \<and> get_aqi_category (PInt (- 1)) = (''Unknown'', ''#808080'')
   \<and> get_aqi_category (PInt (- 1)) \<notin> snd ` set category_table"
  by (simp add: get_aqi_category_def between_def category_table_def)

section \<open>The fetcher returns its failures as data\<close>

lemma get_aqi_data_returns: "\<exists>d e. fst (get_aqi_data tok net a) = Inr (d, e)"
  by (cases "try_body net (feed_url a tok)") (auto simp: get_aqi_data_def Let_def)

lemma fetch_exception:
  "\<not> not_token tok \<Longrightarrow> net (feed_url city tok) = Inl x \<Longrightarrow>
   fst (get_aqi_data tok net city) =
     Inr (PNone, PStr ((if is_RequestException x then ''Network error: ''
                        else ''An unexpected error occurred: '') @ str_exn x))"
  by (simp add: get_aqi_data_def Let_def try_body_def)

lemma fetch_bad_status:
  "\<not> not_token tok \<Longrightarrow> net (feed_url city tok) = Inr r \<Longrightarrow>
   400 \<le> status_code r \<and> status_code r < 600 \<Longrightarrow>
   fst (get_aqi_data tok net city) = Inr (PNone, PStr (''Network error: '' @ http_error r))"
  by (simp add: get_aqi_data_def Let_def try_body_def raise_for_status_def)

lemma status_passes:
  "\<not> (400 \<le> status_code r \<and> status_code r < 600) \<Longrightarrow> raise_for_status r = Inr ()"
  by (auto simp: raise_for_status_def)

lemma fetch_json_exception:
  assumes "\<not> not_token tok" and "net (feed_url city tok) = Inr r"
    and "\<not> (400 \<le> status_code r \<and> status_code r < 600)" and "json r = Inl x"
  shows "fst (get_aqi_data tok net city) =
     Inr (PNone, PStr ((if is_RequestException x then ''Network error: ''
                        else ''An unexpected error occurred: '') @ str_exn x))"
  using assms(1,2,4) status_passes [OF assms(3)]
  by (simp add: get_aqi_data_def Let_def try_body_def)

lemma fetch_api_error:
  assumes "\<not> not_token tok" and "net (feed_url city tok) = Inr r"
    and "\<not> (400 \<le> status_code r \<and> status_code r < 600)" and "json r = Inr (PDict kvs)"
    and "map_of kvs ''status'' \<noteq> Some (PStr ''ok'')"
  shows "fst (get_aqi_data tok net city) =
     Inr (PNone, field_or kvs ''data'' (PStr ''Unknown error from API.''))"
  using assms(1,2,4,5) status_passes [OF assms(3)]
  by (cases "map_of kvs ''status''")
     (simp_all add: get_aqi_data_def Let_def try_body_def field_or_def)

lemma fetch_ok:
  assumes "\<not> not_token tok" and "net (feed_url city tok) = Inr r"
    and "\<not> (400 \<le> status_code r \<and> status_code r < 600)" and "json r = Inr (PDict kvs)"
    and "map_of kvs ''status'' = Some (PStr ''ok'')" and "map_of kvs ''data'' = Some d"
  shows "fst (get_aqi_data tok net city) = Inr (d, PNone)"
  using assms(1,2,4,5,6) status_passes [OF assms(3)]
  by (simp add: get_aqi_data_def Let_def try_body_def)

lemma fetch_ok_without_data:
  assumes "\<not> not_token tok" and "net (feed_url city tok) = Inr r"
    and "\<not> (400 \<le> status_code r \<and> status_code r < 600)" and "json r = Inr (PDict kvs)"
    and "map_of kvs ''status'' = Some (PStr ''ok'')" and "map_of kvs ''data'' = None"
  shows "fst (get_aqi_data tok net city)
           = Inr (PNone, PStr (''An unexpected error occurred: '' @ quoted ''data''))"
  using assms(1,2,4,5,6) status_passes [OF assms(3)]
  by (simp add: get_aqi_data_def Let_def try_body_def)

lemma fetch_not_object:
  assumes "\<not> not_token tok" and "net (feed_url city tok) = Inr r"
    and "\<not> (400 \<le> status_code r \<and> status_code r < 600)" and "json r = Inr v"
    and "\<forall>kvs. v \<noteq> PDict kvs"
  shows "fst (get_aqi_data tok net city)
           = Inr (PNone, PStr (''An unexpected error occurred: '' @ quoted (type_name v)
                                 @ '' object has no attribute '' @ quoted ''get''))"
  using assms(1,2,4,5) status_passes [OF assms(3)]
  by (cases v) (simp_all add: get_aqi_data_def Let_def try_body_def)

lemma fetch_converts:
  "\<not> not_token tok \<Longrightarrow> try_body net (feed_url city tok) = Inl x \<Longrightarrow>
   fst (get_aqi_data tok net city) =
     Inr (PNone, PStr ((if is_RequestException x then ''Network error: ''
                        else ''An unexpected error occurred: '') @ str_exn x))"
  by (simp add: get_aqi_data_def Let_def)

lemma fetch_passes_on:
  "\<not> not_token tok \<Longrightarrow> try_body net (feed_url city tok) = Inr p \<Longrightarrow>
   fst (get_aqi_data tok net city) = Inr p"
  by (simp add: get_aqi_data_def Let_def)

lemma fetch_sends_request:
  "\<not> not_token tok \<Longrightarrow> snd (get_aqi_data tok net city) = [HttpGet (feed_url city tok)]"
  by (simp add: get_aqi_data_def Let_def)

lemma fetch_without_token:
  "not_token tok \<Longrightarrow>
   get_aqi_data tok net city =
     (Inr (PNone, PStr ''API Token not configured. Please set the AQI_API_TOKEN environment variable.''), [])"
  by (simp add: get_aqi_data_def)

text \<open>
  C4. \<^verbatim>\<open>get_aqi_data\<close> always returns a pair and no exception leaves it. Without a token
  it returns the not-configured message. With a token: whatever exception the body of
  the \<^verbatim>\<open>try\<close> statement raises is turned into the message "Network error: ..." when it is
  a \<^verbatim>\<open>RequestException\<close> and "An unexpected error occurred: ..." otherwise, and what the
  body returns is returned. In particular an exception of \<^verbatim>\<open>requests.get\<close> or of
  \<^verbatim>\<open>response.json()\<close> is so converted; a status code 4xx or 5xx gives "Network error:
  ..."; a payload that is not an object, or an "ok" payload without \<^verbatim>\<open>data\<close>, gives
  "An unexpected error occurred: ..." with the text of the \<^verbatim>\<open>AttributeError\<close> or
  \<^verbatim>\<open>KeyError\<close>; an "ok" payload with \<^verbatim>\<open>data\<close> gives that data and no message; and a
  payload whose \<^verbatim>\<open>status\<close> is not "ok" gives the payload's \<^verbatim>\<open>data\<close> field as the message,
  or "Unknown error from API." when the payload has none.
\<close>

theorem get_aqi_data_result_as_data:
  "(\<exists>d e. fst (get_aqi_data tok net city) = Inr (d, e))
   \<and> (not_token tok \<longrightarrow>
        get_aqi_data tok net city =
          (Inr (PNone, PStr ''API Token not configured. Please set the AQI_API_TOKEN environment variable.''), []))
   \<and> (\<not> not_token tok \<longrightarrow>
        (\<forall>x. try_body net (feed_url city tok) = Inl x \<longrightarrow>
           fst (get_aqi_data tok net city) =
             Inr (PNone, PStr ((if is_RequestException x then ''Network error: ''
                                else ''An unexpected error occurred: '') @ str_exn x)))
      \<and> (\<forall>p. try_body net (feed_url city tok) = Inr p \<longrightarrow>
           fst (get_aqi_data tok net city) = Inr p)
      \<and> (\<forall>x. net (feed_url city tok) = Inl x \<longrightarrow>
           fst (get_aqi_data tok net city) =
             Inr (PNone, PStr ((if is_RequestException x then ''Network error: ''
                                else ''An unexpected error occurred: '') @ str_exn x)))
      \<and> (\<forall>r. net (feed_url city tok) = Inr r \<longrightarrow>
           (400 \<le> status_code r \<and> status_code r < 600 \<longrightarrow>
              fst (get_aqi_data tok net city) =
                Inr (PNone, PStr (''Network error: '' @ http_error r)))
         \<and> (\<not> (400 \<le> status_code r \<and> status_code r < 600) \<longrightarrow>
              (\<forall>x. json r = Inl x \<longrightarrow>
                 fst (get_aqi_data tok net city) =
                   Inr (PNone, PStr ((if is_RequestException x then ''Network error: ''
                                      else ''An unexpected error occurred: '') @ str_exn x)))
            \<and> (\<forall>v. json r = Inr v \<and> (\<forall>kvs. v \<noteq> PDict kvs) \<longrightarrow>
                 fst (get_aqi_data tok net city) =
                   Inr (PNone, PStr (''An unexpected error occurred: '' @ quoted (type_name v)
                                       @ '' object has no attribute '' @ quoted ''get'')))
            \<and> (\<forall>kvs. json r = Inr (PDict kvs) \<and> map_of kvs ''status'' = Some (PStr ''ok'') \<longrightarrow>
                 fst (get_aqi_data tok net city) =
                   (case map_of kvs ''data'' of
                      Some d \<Rightarrow> Inr (d, PNone)
                    | None \<Rightarrow>
                        Inr (PNone, PStr (''An unexpected error occurred: '' @ quoted ''data''))))
            \<and> (\<forall>kvs. json r = Inr (PDict kvs) \<and> map_of kvs ''status'' \<noteq> Some (PStr ''ok'') \<longrightarrow>
                 fst (get_aqi_data tok net city) =
                   Inr (PNone, field_or kvs ''data'' (PStr ''Unknown error from API.''))))))"
proof -
  have ok: "fst (get_aqi_data tok net city) =
        (case map_of kvs ''data'' of
           Some d \<Rightarrow> Inr (d, PNone)
         | None \<Rightarrow> Inr (PNone, PStr (''An unexpected error occurred: '' @ quoted ''data'')))"
    if "\<not> not_token tok" and "net (feed_url city tok) = Inr r"
      and "\<not> (400 \<le> status_code r \<and> status_code r < 600)"
      and "json r = Inr (PDict kvs)" and "map_of kvs ''status'' = Some (PStr ''ok'')" for r kvs
    using that fetch_ok [of tok net city r kvs] fetch_ok_without_data [of tok net city r kvs]
    by (cases "map_of kvs ''data''") simp_all
  show ?thesis
    using get_aqi_data_returns [of tok net city] fetch_without_token [of tok net city]
      fetch_converts [of tok net city] fetch_passes_on [of tok net city]
      fetch_exception [of tok net city] fetch_bad_status [of tok net city]
      fetch_json_exception [of tok net city] fetch_not_object [of tok net city]
      fetch_api_error [of tok net city] ok
    by (intro conjI impI allI) blast+
qed

lemma token_set: "\<not> not_token (Some hardcoded_token)"
  by (simp add: not_token_def hardcoded_token_def)

lemma three_down_mumbai:
  "three_down m (feed_url ''mumbai'' (Some hardcoded_token))
     = Inr (server_error_response (feed_url ''mumbai'' (Some hardcoded_token)))"
  by (simp add: three_down_def)

lemma three_down_pune:
  "three_down m (feed_url ''pune'' (Some hardcoded_token)) = Inl (RequestException ''Read timed out.'')"
  by (simp add: three_down_def feed_url_def)

lemma three_down_delhi:
  "three_down m (feed_url ''delhi'' (Some hardcoded_token)) = Inr (ok_response (reading 75))"
  by (simp add: three_down_def feed_url_def)

lemma three_down_patna:
  "three_down m (feed_url ''patna'' (Some hardcoded_token)) = Inr (api_error_response m)"
  by (simp add: three_down_def feed_url_def)

theorem get_aqi_data_failures_example:
  "fst (get_aqi_data (Some hardcoded_token) (three_down (PStr ''Unknown station'')) ''mumbai'')
     = Inr (PNone, PStr (''Network error: 500 Server Error: Internal Server Error for url: ''
                           @ feed_url ''mumbai'' (Some hardcoded_token)))
   \<and> fst (get_aqi_data (Some hardcoded_token) (three_down (PStr ''Unknown station'')) ''pune'')
     = Inr (PNone, PStr ''Network error: Read timed out.'')
   \<and> fst (get_aqi_data (Some hardcoded_token) (three_down (PStr ''Unknown station'')) ''patna'')
     = Inr (PNone, PStr ''Unknown station'')
   \<and> fst (get_aqi_data (Some hardcoded_token) (three_down (PStr ''Unknown station'')) ''delhi'')
     = Inr (reading 75, PNone)"
proof -
  let ?net = "three_down (PStr ''Unknown station'')"
  have "fst (get_aqi_data (Some hardcoded_token) ?net ''mumbai'')
          = Inr (PNone, PStr (''Network error: 500 Server Error: Internal Server Error for url: ''
                                @ feed_url ''mumbai'' (Some hardcoded_token)))"
    using get_aqi_data_result_as_data [of "Some hardcoded_token" ?net "''mumbai''"]
      token_set three_down_mumbai [of "PStr ''Unknown station''"]
    by (simp add: server_error_response_def)
  moreover have "fst (get_aqi_data (Some hardcoded_token) ?net ''pune'')
          = Inr (PNone, PStr ''Network error: Read timed out.'')"
    using get_aqi_data_result_as_data [of "Some hardcoded_token" ?net "''pune''"]
      token_set three_down_pune [of "PStr ''Unknown station''"]
    by simp
  moreover have "fst (get_aqi_data (Some hardcoded_token) ?net ''patna'')
          = Inr (PNone, PStr ''Unknown station'')"
    using get_aqi_data_result_as_data [of "Some hardcoded_token" ?net "''patna''"]
      token_set three_down_patna [of "PStr ''Unknown station''"]
    by (simp add: api_error_response_def field_or_def)
  moreover have "fst (get_aqi_data (Some hardcoded_token) ?net ''delhi'')
          = Inr (reading 75, PNone)"
    using get_aqi_data_result_as_data [of "Some hardcoded_token" ?net "''delhi''"]
      token_set three_down_delhi [of "PStr ''Unknown station''"]
    by (simp add: ok_response_def)
  ultimately show ?thesis by blast
qed

section \<open>The token and the configuration branch\<close>

lemma city_loop_without_token:
  "not_token tok \<Longrightarrow>
   city_loop tok net repr n i cs st =
     Inr (st\<lparr>errors := errors st @
                map (\<lambda>c. could_not_fetch repr (fst c)
                       (PStr ''API Token not configured. Please set the AQI_API_TOKEN environment variable.'')) cs,
             events := events st @ pacing n i cs\<rparr>)"
proof (induction cs arbitrary: i st)
  case Nil
  show ?case by simp
next
  case (Cons c cs)
  obtain dn an where c: "c = (dn, an)" by (cases c)
  show ?case
    using Cons.prems c by (simp add: fetch_without_token Cons.IH)
qed

lemma pacing_sleeps: "count_list (pacing n i cs) Sleep = length cs"
  by (induction cs arbitrary: i) simp_all

lemma pacing_no_request: "\<not> is_HttpGet e \<or> e \<notin> set (pacing n i cs)"
  by (induction cs arbitrary: i) auto

lemma city_loop_no_StError:
  "city_loop tok net repr n i cs st = Inr st' \<Longrightarrow> StError m \<notin> set (events st) \<Longrightarrow>
   StError m \<notin> set (events st')"
proof (induction cs arbitrary: i st)
  case Nil
  then show ?case by simp
next
  case (Cons c cs)
  obtain dn an where c: "c = (dn, an)" by (cases c)
  obtain d e where de: "fst (get_aqi_data tok net an) = Inr (d, e)"
    using get_aqi_data_returns by blast
  then obtain evs where g: "get_aqi_data tok net an = (Inr (d, e), evs)"
    by (cases "get_aqi_data tok net an") simp
  have evs: "StError m \<notin> set evs"
    using g by (auto simp: get_aqi_data_def Let_def split: if_splits)
  define upd where "upd =
    (if truthy e
     then Inr (st\<lparr>errors := errors st @ [could_not_fetch repr dn e]\<rparr>)
     else if truthy d
     then and_then (data_point dn d) (\<lambda>p. Inr (st\<lparr>all_data := all_data st @ [p]\<rparr>))
     else Inr st)"
  have step: "and_then upd (\<lambda>st1. city_loop tok net repr n (i + 1) cs
            (st1\<lparr>events := events st1 @ evs @
               [Progress (i + 1) n (''Fetching data for '' @ dn @ ''...''), Sleep]\<rparr>)) = Inr st'"
    using Cons.prems(1) c g by (simp add: upd_def)
  then obtain st1 where u: "upd = Inr st1"
    and st1: "city_loop tok net repr n (i + 1) cs
            (st1\<lparr>events := events st1 @ evs @
               [Progress (i + 1) n (''Fetching data for '' @ dn @ ''...''), Sleep]\<rparr>) = Inr st'"
    by (cases upd) simp_all
  have ev1: "events st1 = events st"
    using u by (cases "data_point dn d") (auto simp: upd_def split: if_splits)
  show ?case
    by (rule Cons.IH [OF st1]) (simp add: ev1 evs Cons.prems(2))
qed

lemma no_fatal_with_token:
  "\<not> not_token tok \<Longrightarrow>
   StError m \<notin> set (reported (fetch_all_cities_data tok net repr cities))"
proof -
  assume t: "\<not> not_token tok"
  show ?thesis
  proof (cases "city_loop tok net repr (length cities) 0 cities
          \<lparr>all_data = [], errors = [], events = [Progress 0 1 ''Fetching data for all cities...'']\<rparr>")
    case (Inl e)
    then show ?thesis by (simp add: fetch_all_cities_data_def reported_def)
  next
    case (Inr st')
    from city_loop_no_StError [OF Inr] have "StError m \<notin> set (events st')" by simp
    with Inr t show ?thesis by (simp add: fetch_all_cities_data_def reported_def)
  qed
qed

lemma API_TOKEN_value: "API_TOKEN environ = Some hardcoded_token"
  by (simp add: API_TOKEN_def)

text \<open>
  C10. Whatever the environment holds when the module starts, \<^verbatim>\<open>API_TOKEN\<close> is the token
  written in the source, a non-empty string, so \<^verbatim>\<open>not API_TOKEN\<close> is false: every call
  of \<^verbatim>\<open>get_aqi_data\<close> goes past the early return and sends its request, and no pass of
  \<^verbatim>\<open>fetch_all_cities_data\<close> reports the fatal configuration message.
\<close>

theorem token_is_always_set:
  "API_TOKEN environ = Some hardcoded_token
   \<and> hardcoded_token \<noteq> []
   \<and> \<not> not_token (API_TOKEN environ)
   \<and> snd (get_aqi_data (API_TOKEN environ) net city) = [HttpGet (feed_url city (API_TOKEN environ))]
   \<and> StError fatal_message
        \<notin> set (reported (fetch_all_cities_data (API_TOKEN environ) net repr cities))"
  by (simp add: API_TOKEN_value token_set fetch_sends_request no_fatal_with_token)
     (simp add: hardcoded_token_def)

section \<open>A pass without a token\<close>

text \<open>
  C3 (as amended). With no token, \<^verbatim>\<open>fetch_all_cities_data\<close> still goes through every
  city: it sends no request, but updates the progress bar and sleeps once per city.
  Only then does it drop the per-city messages, report the fatal configuration message
  and return an empty table with an empty failure list. With a token it never reports
  that message.
\<close>

theorem pass_without_token:
  "(not_token tok \<longrightarrow>
      fetch_all_cities_data tok net repr cities =
        Inr (([], []),
             Progress 0 1 ''Fetching data for all cities...'' # pacing (length cities) 0 cities
               @ [ProgressEmpty, StError fatal_message])
      \<and> count_list (pacing (length cities) 0 cities) Sleep = length cities
      \<and> filter is_HttpGet (reported (fetch_all_cities_data tok net repr cities)) = [])
   \<and> (\<not> not_token tok \<longrightarrow>
        StError fatal_message \<notin> set (reported (fetch_all_cities_data tok net repr cities)))"
proof -
  have quiet: "filter is_HttpGet (pacing n i cs) = []" for n i cs
    using pacing_no_request [of _ n i cs] by (auto simp: filter_empty_conv)
  have "fetch_all_cities_data tok net repr cities =
        Inr (([], []),
             Progress 0 1 ''Fetching data for all cities...'' # pacing (length cities) 0 cities
               @ [ProgressEmpty, StError fatal_message])" if "not_token tok"
    using that by (simp add: fetch_all_cities_data_def city_loop_without_token)
  moreover from this
  have "filter is_HttpGet (reported (fetch_all_cities_data tok net repr cities)) = []"
    if "not_token tok"
    using that by (simp add: reported_def quiet)
  ultimately show ?thesis
    using no_fatal_with_token [of tok fatal_message net repr cities]
    by (simp add: pacing_sleeps)
qed

theorem pass_with_empty_token:
  "fetch_all_cities_data (Some []) offline no_repr [(''Delhi'', ''delhi''), (''Mumbai'', ''mumbai'')] =
     Inr (([], []),
          [Progress 0 1 ''Fetching data for all cities...'',
           Progress 1 2 ''Fetching data for Delhi...'', Sleep,
           Progress 2 2 ''Fetching data for Mumbai...'', Sleep,
           ProgressEmpty, StError fatal_message])
   \<and> StError fatal_message
        \<notin> set (reported (fetch_all_cities_data (Some ''t'') offline no_repr [(''Delhi'', ''delhi'')]))"
  using pass_without_token [of "Some []" offline no_repr "[(''Delhi'', ''delhi''), (''Mumbai'', ''mumbai'')]"]
    pass_without_token [of "Some ''t''" offline no_repr "[(''Delhi'', ''delhi'')]"]
  by (simp add: not_token_def)

theorem no_short_circuit_without_token:
  "fetch_all_cities_data None offline no_repr CITIES =
     Inr (([], []),
          [Progress 0 1 ''Fetching data for all cities...'',
           Progress 1 12 ''Fetching data for Delhi...'', Sleep,
           Progress 2 12 ''Fetching data for Mumbai...'', Sleep,
           Progress 3 12 ''Fetching data for Kolkata...'', Sleep,
           Progress 4 12 ''Fetching data for Chennai...'', Sleep,
           Progress 5 12 ''Fetching data for Bengaluru...'', Sleep,
           Progress 6 12 ''Fetching data for Hyderabad...'', Sleep,
           Progress 7 12 ''Fetching data for Pune...'', Sleep,
           Progress 8 12 ''Fetching data for Ahmedabad...'', Sleep,
           Progress 9 12 ''Fetching data for Jaipur...'', Sleep,
           Progress 10 12 ''Fetching data for Lucknow...'', Sleep,
           Progress 11 12 ''Fetching data for Bhopal...'', Sleep,
           Progress 12 12 ''Fetching data for Patna...'', Sleep,
           ProgressEmpty, StError fatal_message])"
  by (simp add: fetch_all_cities_data_def CITIES_def get_aqi_data_def not_token_def truthy.simps)

section \<open>Building a row from a payload\<close>

lemma data_point_dict:
  "data_point name (PDict kvs) =
     and_then (py_get (field_or kvs ''city'' (PDict [])) ''geo'' (PList [PNone, PNone])) (\<lambda>geo.
     and_then (py_index geo 0) (\<lambda>lat.
     and_then (py_index geo 1) (\<lambda>lon.
     and_then (py_get (field_or kvs ''time'' (PDict [])) ''s'' (PStr ''N/A'')) (\<lambda>s.
       Inr \<lparr>City = name, AQI = field_or kvs ''aqi'' PNone, Latitude = lat, Longitude = lon,
            Timestamp = s, Category = None, Color = None\<rparr>))))"
proof (cases "py_get (field_or kvs ''city'' (PDict [])) ''geo'' (PList [PNone, PNone])")
  case (Inl e)
  then show ?thesis by (simp add: data_point_def field_or_def)
next
  case (Inr geo)
  then show ?thesis
    by (cases "py_index geo 0") (simp_all add: data_point_def field_or_def)
qed

lemma py_index_two:
  "two_elements g \<Longrightarrow> py_index g 0 = Inr (element g 0) \<and> py_index g 1 = Inr (element g 1)"
  by (cases g) (auto simp: two_elements_def element_def)

lemma py_index_short: "\<not> two_elements g \<Longrightarrow> \<exists>e. py_index g 0 = Inl e \<or> py_index g 1 = Inl e"
  by (cases g) (auto simp: two_elements_def)

lemma data_point_well_shaped:
  assumes "well_shaped d"
  shows "data_point name d =
     Inr \<lparr>City = name, AQI = field_or (items d) ''aqi'' PNone,
          Latitude = element (geo_of d) 0, Longitude = element (geo_of d) 1,
          Timestamp = field_or (items (field_or (items d) ''time'' (PDict []))) ''s'' (PStr ''N/A''),
          Category = None, Color = None\<rparr>"
proof -
  from assms obtain kvs where d: "d = PDict kvs"
    by (cases d) (simp_all add: well_shaped_def)
  from assms d obtain c where c: "field_or kvs ''city'' (PDict []) = PDict c"
    and g: "two_elements (field_or c ''geo'' (PList [PNone, PNone]))"
    by (auto simp: well_shaped_def field_or_def two_elements_def
        split: option.splits pyval.splits)
  from assms d obtain t where t: "field_or kvs ''time'' (PDict []) = PDict t"
    by (auto simp: well_shaped_def field_or_def split: option.splits pyval.splits)
  have geo: "geo_of d = field_or c ''geo'' (PList [PNone, PNone])"
    by (simp add: geo_of_def d c items_def)
  have get_geo: "py_get (PDict c) ''geo'' (PList [PNone, PNone]) = Inr (geo_of d)"
    by (simp add: geo field_or_def)
  have get_s: "py_get (PDict t) ''s'' (PStr ''N/A'') = Inr (field_or t ''s'' (PStr ''N/A''))"
    by (simp add: field_or_def)
  from g geo have gg: "two_elements (geo_of d)" by simp
  show ?thesis
    unfolding d data_point_dict c t get_geo get_s
    using py_index_two [OF gg] by (simp add: d items_def t)
qed

lemma data_point_ill_shaped:
  assumes "\<not> well_shaped d"
  shows "\<exists>e. data_point name d = Inl e"
proof (cases d)
  case (PDict kvs)
  show ?thesis
  proof (cases "field_or kvs ''city'' (PDict [])")
    case c: (PDict c)
    show ?thesis
    proof (cases "two_elements (field_or c ''geo'' (PList [PNone, PNone]))")
      case True
      with assms PDict c obtain v where "map_of kvs ''time'' = Some v" and "\<forall>t. v \<noteq> PDict t"
        by (auto simp: well_shaped_def field_or_def two_elements_def
            split: option.splits pyval.splits)
      then have "\<exists>e. py_get (field_or kvs ''time'' (PDict [])) ''s'' (PStr ''N/A'') = Inl e"
        by (cases v) (simp_all add: field_or_def)
      then show ?thesis
        using py_index_two [OF True]
        by (auto simp: PDict data_point_dict c field_or_def [of c])
    next
      case False
      from py_index_short [OF False] show ?thesis
        by (cases "py_index (field_or c ''geo'' (PList [PNone, PNone])) 0")
           (auto simp: PDict data_point_dict c field_or_def [of c])
    qed
  qed (simp_all add: PDict data_point_dict)
qed (simp_all add: data_point_def)

lemma data_point_City: "data_point name d = Inr p \<Longrightarrow> City p = name"
  using data_point_well_shaped [of d name] data_point_ill_shaped [of d name]
  by (cases "well_shaped d") auto

text \<open>
  C5 (as amended). Lines 97-103 build the row without raising exactly when the payload
  is well shaped: a dictionary whose \<^verbatim>\<open>city\<close> and \<^verbatim>\<open>time\<close> are absent or dictionaries and
  whose \<^verbatim>\<open>geo\<close> is absent or has at least two elements. On such a payload an absent
  \<^verbatim>\<open>aqi\<close> gives \<^verbatim>\<open>None\<close>, an absent \<^verbatim>\<open>city\<close> or \<^verbatim>\<open>geo\<close> gives \<^verbatim>\<open>None\<close> for both coordinates and
  an absent \<^verbatim>\<open>time\<close> or \<^verbatim>\<open>s\<close> gives "N/A". On any other payload a lookup raises.
\<close>

theorem data_point_defaults:
  "(well_shaped d \<longrightarrow>
      data_point name d =
        Inr \<lparr>City = name, AQI = field_or (items d) ''aqi'' PNone,
             Latitude = element (geo_of d) 0, Longitude = element (geo_of d) 1,
             Timestamp = field_or (items (field_or (items d) ''time'' (PDict []))) ''s'' (PStr ''N/A''),
             Category = None, Color = None\<rparr>)
   \<and> (\<not> well_shaped d \<longrightarrow> (\<exists>e. data_point name d = Inl e))"
  using data_point_well_shaped data_point_ill_shaped by blast

theorem data_point_of_bare_payload:
  "data_point ''Delhi'' (PDict [(''aqi'', PInt 75)]) =
     Inr \<lparr>City = ''Delhi'', AQI = PInt 75, Latitude = PNone, Longitude = PNone,
          Timestamp = PStr ''N/A'', Category = None, Color = None\<rparr>
   \<and> (\<exists>e. data_point ''Delhi'' (PDict [(''aqi'', PInt 75), (''city'', PNone)]) = Inl e)"
proof -
  have "well_shaped (PDict [(''aqi'', PInt 75)])"
    by (simp add: well_shaped_def)
  moreover have "\<not> well_shaped (PDict [(''aqi'', PInt 75), (''city'', PNone)])"
    by (simp add: well_shaped_def)
  ultimately show ?thesis
    using data_point_defaults [of "PDict [(''aqi'', PInt 75)]" "''Delhi''"]
      data_point_defaults [of "PDict [(''aqi'', PInt 75), (''city'', PNone)]" "''Delhi''"]
    by (simp add: field_or_def items_def geo_of_def element_def)
qed

theorem data_point_raises_on_empty_geo:
  "data_point ''Delhi''
     (PDict [(''aqi'', PInt 75), (''city'', PDict [(''geo'', PList [])]),
             (''time'', PDict [(''s'', PStr ''2024-01-15 10:00:00'')])])
   = Inl (IndexError ''list index out of range'')"
  by (simp add: data_point_def)

section \<open>A pass with some failures\<close>

lemma city_loop_result:
  "\<forall>c\<in>set cs. \<not> crashes tok net c \<Longrightarrow>
   city_loop tok net repr n i cs st =
     Inr (st\<lparr>all_data := all_data st @ concat (map (new_rows tok net) cs),
             errors := errors st @ concat (map (new_errors repr tok net) cs),
             events := events st @ loop_events tok net n i cs\<rparr>)"
proof (induction cs arbitrary: i st)
  case Nil
  show ?case by simp
next
  case (Cons c cs)
  obtain dn an where c: "c = (dn, an)" by (cases c)
  obtain d e where de: "fst (get_aqi_data tok net an) = Inr (d, e)"
    using get_aqi_data_returns by blast
  then obtain evs where g: "get_aqi_data tok net an = (Inr (d, e), evs)"
    by (cases "get_aqi_data tok net an") simp
  have nc: "\<not> crashes tok net c" and rest: "\<forall>c\<in>set cs. \<not> crashes tok net c"
    using Cons.prems by simp_all
  note defs = new_rows_def new_errors_def failure_entry_def fetch_fails_def fetch_error_def
  show ?case
  proof (cases "truthy e")
    case True
    then show ?thesis
      using g c by (simp add: Cons.IH [OF rest] defs)
  next
    case False
    show ?thesis
    proof (cases "truthy d")
      case True
      with nc False g c obtain p where p: "data_point dn d = Inr p"
        by (auto simp: crashes_def split: sum.splits)
      with True False g c show ?thesis
        by (simp add: Cons.IH [OF rest] defs)
    next
      case nd: False
      with False g c show ?thesis
        by (simp add: Cons.IH [OF rest] defs)
    qed
  qed
qed

lemma fails_not_succeeds: "fetch_fails tok net c \<Longrightarrow> \<not> fetch_succeeds tok net c"
  by (auto simp: fetch_fails_def fetch_succeeds_def split: sum.splits)

lemma no_crash: "fetch_fails tok net c \<or> fetch_succeeds tok net c \<Longrightarrow> \<not> crashes tok net c"
  by (auto simp: fetch_fails_def fetch_succeeds_def crashes_def split: sum.splits)

lemma succeeds_has_token: "fetch_succeeds tok net c \<Longrightarrow> \<not> not_token tok"
  by (auto simp: fetch_succeeds_def fetch_without_token)

lemma new_rows_cases:
  "(fetch_succeeds tok net c \<and> (\<exists>p. new_rows tok net c = [p] \<and> City p = fst c))
   \<or> (\<not> fetch_succeeds tok net c \<and> new_rows tok net c = [])"
  by (auto simp: fetch_succeeds_def new_rows_def data_point_City split: sum.splits)

lemma rows_of_successes:
  "map City (concat (map (new_rows tok net) cs)) = map fst (filter (fetch_succeeds tok net) cs)"
proof (induction cs)
  case Nil
  show ?case by simp
next
  case (Cons c cs)
  then show ?case using new_rows_cases [of tok net c] by auto
qed

lemma errors_of_failures:
  "concat (map (new_errors repr tok net) cs)
     = map (failure_entry repr tok net) (filter (fetch_fails tok net) cs)"
  by (induction cs) (simp_all add: new_errors_def)

lemma loop_requests:
  "\<not> not_token tok \<Longrightarrow>
   filter is_HttpGet (loop_events tok net n i cs) = map (\<lambda>c. HttpGet (feed_url (snd c) tok)) cs"
  by (induction cs arbitrary: i) (simp_all add: fetch_sends_request)

lemma covered:
  assumes "\<And>x. P x \<Longrightarrow> \<not> Q x"
    and "length (filter P xs) + length (filter Q xs) = length xs"
  shows "\<forall>x\<in>set xs. P x \<or> Q x"
  using assms(2)
proof (induction xs)
  case Nil
  show ?case by simp
next
  case (Cons x xs)
  have le: "length (filter P xs) + length (filter Q xs) \<le> length xs"
  proof (induction xs)
    case Nil
    show ?case by simp
  next
    case (Cons y ys)
    then show ?case using assms(1) [of y] by auto
  qed
  show ?case
  proof (cases "P x \<or> Q x")
    case True
    then consider "P x" and "\<not> Q x" | "Q x" and "\<not> P x"
      using assms(1) [of x] by blast
    then have "length (filter P xs) + length (filter Q xs) = length xs"
      using Cons.prems by cases simp_all
    with Cons.IH True show ?thesis by simp
  next
    case False
    with Cons.prems le show ?thesis by simp
  qed
qed

lemma pass_result:
  assumes all: "\<forall>c\<in>set cities. fetch_fails tok net c \<or> fetch_succeeds tok net c"
    and some: "filter (fetch_succeeds tok net) cities \<noteq> []"
  shows "fetch_all_cities_data tok net repr cities =
     Inr ((concat (map (new_rows tok net) cities),
           map (failure_entry repr tok net) (filter (fetch_fails tok net) cities)),
          Progress 0 1 ''Fetching data for all cities...''
            # loop_events tok net (length cities) 0 cities @ [ProgressEmpty])"
proof -
  from all have "\<forall>c\<in>set cities. \<not> crashes tok net c"
    using no_crash by blast
  note loop = city_loop_result [OF this]
  from some obtain c where "c \<in> set cities" and "fetch_succeeds tok net c"
    by (auto simp: filter_empty_conv)
  then have "\<not> not_token tok" using succeeds_has_token by blast
  then show ?thesis
    by (simp add: fetch_all_cities_data_def loop errors_of_failures)
qed

text \<open>
  C7 (as amended). Let every configured city either fail, that is, \<^verbatim>\<open>get_aqi_data\<close>
  returns a message that \<^verbatim>\<open>if error:\<close> accepts, or succeed, that is, it returns no such
  message and a payload that \<^verbatim>\<open>elif aqi_data:\<close> accepts and from which the row can be
  built; and let at least one succeed. Then the pass returns one row for each city
  that succeeds and one failure entry for each city that fails, both in the order of
  the configuration; each entry is "Could not fetch data for", the display name and the
  message; and a request is sent for every city, in that order. With 12 cities of
  which 3 fail and 9 succeed this gives 9 rows and 3 entries.
\<close>

theorem partial_failure_is_not_fatal:
  assumes "length (filter (fetch_fails tok net) cities)
             + length (filter (fetch_succeeds tok net) cities) = length cities"
    and "filter (fetch_succeeds tok net) cities \<noteq> []"
  shows "\<exists>rows errs evs.
      fetch_all_cities_data tok net repr cities = Inr ((rows, errs), evs)
      \<and> length rows = length (filter (fetch_succeeds tok net) cities)
      \<and> length errs = length (filter (fetch_fails tok net) cities)
      \<and> map City rows = map fst (filter (fetch_succeeds tok net) cities)
      \<and> errs = map (\<lambda>c. ''Could not fetch data for '' @ fst c @ '': ''
                          @ py_str repr (fetch_error tok net (snd c)))
                 (filter (fetch_fails tok net) cities)
      \<and> filter is_HttpGet evs = map (\<lambda>c. HttpGet (feed_url (snd c) tok)) cities"
proof -
  have all: "\<forall>c\<in>set cities. fetch_fails tok net c \<or> fetch_succeeds tok net c"
    by (rule covered [OF fails_not_succeeds assms(1)])
  from assms(2) obtain c where "c \<in> set cities" and "fetch_succeeds tok net c"
    by (auto simp: filter_empty_conv)
  then have tok: "\<not> not_token tok" using succeeds_has_token by blast
  let ?rows = "concat (map (new_rows tok net) cities)"
  have len: "length ?rows = length (filter (fetch_succeeds tok net) cities)"
    using rows_of_successes [of tok net cities, THEN arg_cong, of length] by simp
  have entries: "map (failure_entry repr tok net) (filter (fetch_fails tok net) cities)
      = map (\<lambda>c. ''Could not fetch data for '' @ fst c @ '': ''
                          @ py_str repr (fetch_error tok net (snd c)))
                 (filter (fetch_fails tok net) cities)"
    by (simp add: failure_entry_def could_not_fetch_def)
  show ?thesis
    unfolding pass_result [OF all assms(2)] entries [symmetric]
    using len rows_of_successes [of tok net cities] loop_requests [OF tok]
    by simp
qed

lemmas example_defs =
  get_aqi_data_def Let_def try_body_def three_down_def feed_url_def hardcoded_token_def
  not_token_def raise_for_status_def server_error_response_def api_error_response_def
  ok_response_def reading_def

theorem three_of_twelve_fail:
  "batch_size (fetch_all_cities_data (Some hardcoded_token) (three_down (PStr ''Unknown station''))
      no_repr CITIES) = Some (9, 3)
   \<and> cities_of (fetch_all_cities_data (Some hardcoded_token) (three_down (PStr ''Unknown station''))
      no_repr CITIES)
     = [''Delhi'', ''Kolkata'', ''Chennai'', ''Bengaluru'', ''Hyderabad'', ''Ahmedabad'', ''Jaipur'',
        ''Lucknow'', ''Bhopal'']
   \<and> failures_of (fetch_all_cities_data (Some hardcoded_token) (three_down (PStr ''Unknown station''))
      no_repr CITIES)
     = [''Could not fetch data for Mumbai: Network error: 500 Server Error: Internal Server Error for url: ''
          @ feed_url ''mumbai'' (Some hardcoded_token),
        ''Could not fetch data for Pune: Network error: Read timed out.'',
        ''Could not fetch data for Patna: Unknown station'']"
proof -
  let ?tok = "Some hardcoded_token"
  let ?net = "three_down (PStr ''Unknown station'')"
  have f: "filter (fetch_fails ?tok ?net) CITIES
             = [(''Mumbai'', ''mumbai''), (''Pune'', ''pune''), (''Patna'', ''patna'')]"
    by (simp add: CITIES_def fetch_fails_def example_defs)
  have s: "filter (fetch_succeeds ?tok ?net) CITIES
             = [(''Delhi'', ''delhi''), (''Kolkata'', ''kolkata''), (''Chennai'', ''chennai''),
                (''Bengaluru'', ''bangalore''), (''Hyderabad'', ''hyderabad''),
                (''Ahmedabad'', ''ahmedabad''), (''Jaipur'', ''jaipur''), (''Lucknow'', ''lucknow''),
                (''Bhopal'', ''bhopal'')]"
    by (simp add: CITIES_def fetch_succeeds_def data_point_def example_defs)
  have e: "fetch_error ?tok ?net ''mumbai''
             = PStr (''Network error: 500 Server Error: Internal Server Error for url: ''
                       @ feed_url ''mumbai'' (Some hardcoded_token))"
    "fetch_error ?tok ?net ''pune'' = PStr ''Network error: Read timed out.''"
    "fetch_error ?tok ?net ''patna'' = PStr ''Unknown station''"
    by (simp_all add: fetch_error_def example_defs)
  have n: "length (filter (fetch_fails ?tok ?net) CITIES)
             + length (filter (fetch_succeeds ?tok ?net) CITIES) = length CITIES"
    unfolding f s by (simp add: CITIES_def)
  have ne: "filter (fetch_succeeds ?tok ?net) CITIES \<noteq> []"
    unfolding s by simp
  from partial_failure_is_not_fatal [OF n ne, of no_repr] obtain rows errs evs where
    r: "fetch_all_cities_data ?tok ?net no_repr CITIES = Inr ((rows, errs), evs)"
    and "length rows = length (filter (fetch_succeeds ?tok ?net) CITIES)"
    and "length errs = length (filter (fetch_fails ?tok ?net) CITIES)"
    and "map City rows = map fst (filter (fetch_succeeds ?tok ?net) CITIES)"
    and "errs = map (\<lambda>c. ''Could not fetch data for '' @ fst c @ '': ''
                          @ py_str no_repr (fetch_error ?tok ?net (snd c)))
                 (filter (fetch_fails ?tok ?net) CITIES)"
    by blast
  then show ?thesis
    unfolding r f s by (simp add: batch_size_def cities_of_def failures_of_def e py_str_def)
qed

theorem empty_failure_message_is_dropped:
  "fst (get_aqi_data (Some hardcoded_token) (three_down (PStr [])) ''patna'') = Inr (PNone, PStr [])
   \<and> batch_size (fetch_all_cities_data (Some hardcoded_token) (three_down (PStr [])) no_repr CITIES)
       = Some (9, 2)
   \<and> failures_of (fetch_all_cities_data (Some hardcoded_token) (three_down (PStr [])) no_repr CITIES)
       = [''Could not fetch data for Mumbai: Network error: 500 Server Error: Internal Server Error for url: ''
          @ feed_url ''mumbai'' (Some hardcoded_token),
          ''Could not fetch data for Pune: Network error: Read timed out.'']"
proof -
  let ?tok = "Some hardcoded_token"
  let ?net = "three_down (PStr [])"
  have p: "fst (get_aqi_data ?tok ?net ''patna'') = Inr (PNone, PStr [])"
    by (simp add: example_defs)
  have c: "\<forall>c\<in>set CITIES. \<not> crashes ?tok ?net c"
    by (simp add: CITIES_def crashes_def data_point_def example_defs)
  have r: "concat (map (new_rows ?tok ?net) CITIES)
      = map (\<lambda>n. \<lparr>City = n, AQI = PInt 75, Latitude = PFloat (Finite 28.6),
                  Longitude = PFloat (Finite 77.2), Timestamp = PStr ''2024-01-15 10:00:00'',
                  Category = None, Color = None\<rparr>)
          [''Delhi'', ''Kolkata'', ''Chennai'', ''Bengaluru'', ''Hyderabad'', ''Ahmedabad'',
           ''Jaipur'', ''Lucknow'', ''Bhopal'']"
    by (simp add: CITIES_def new_rows_def data_point_def example_defs)
  have e: "concat (map (new_errors no_repr ?tok ?net) CITIES)
      = [''Could not fetch data for Mumbai: Network error: 500 Server Error: Internal Server Error for url: ''
          @ feed_url ''mumbai'' (Some hardcoded_token),
         ''Could not fetch data for Pune: Network error: Read timed out.'']"
    by (simp add: CITIES_def new_errors_def failure_entry_def fetch_fails_def fetch_error_def
        could_not_fetch_def py_str_def example_defs)
  show ?thesis
    unfolding fetch_all_cities_data_def city_loop_result [OF c] r e
    by (simp add: p batch_size_def failures_of_def)
qed

section \<open>Normalization\<close>

lemma assign_columns:
  "map (\<lambda>(r, l, c). r\<lparr>Category := Some l, Color := Some c\<rparr>)
       (zip xs (zip (map (\<lambda>x. fst (k x)) xs) (map (\<lambda>x. snd (k x)) xs)))
   = map (\<lambda>x. x\<lparr>Category := Some (fst (k x)), Color := Some (snd (k x))\<rparr>) xs"
  by (induction xs) (simp_all add: case_prod_beta)

lemma normalization_eq:
  "normalization to_numeric h df =
     (case and_then (to_numeric (map AQI (filter has_subset (h df))))
             (assign_AQI (filter has_subset (h df))) of
        Inl e \<Rightarrow> (Some e, h(df := filter has_subset (h df)))
      | Inr rows \<Rightarrow>
          if rows = []
          then (Some (ValueError ''not enough values to unpack (expected 2, got 0)''), h(df := []))
          else (None, h(df := map (\<lambda>r. normalized_row r (AQI r)) rows)))"
proof (cases "and_then (to_numeric (map AQI (filter has_subset (h df))))
             (assign_AQI (filter has_subset (h df)))")
  case (Inl e)
  then show ?thesis by (simp add: normalization_def Let_def)
next
  case (Inr rows)
  have same: "(\<lambda>x. x\<lparr>Category := Some (fst (get_aqi_category (AQI x))),
                     Color := Some (snd (get_aqi_category (AQI x)))\<rparr>)
              = (\<lambda>r. normalized_row r (AQI r))"
    by (rule ext) (simp add: normalized_row_def)
  show ?thesis
  proof (cases "rows = []")
    case True
    with Inr show ?thesis by (simp add: normalization_def Let_def zip_star_def)
  next
    case False
    with Inr show ?thesis
      by (simp add: normalization_def Let_def zip_star_def comp_def assign_columns same)
  qed
qed

lemma assign_AQI_rows:
  "assign_AQI rows column = Inr rows' \<Longrightarrow>
   length column = length rows \<and> rows' = map (\<lambda>(r, v). r\<lparr>AQI := v\<rparr>) (zip rows column)"
  by (auto simp: assign_AQI_def split: if_splits)

lemma untouched_zip:
  assumes "\<And>r v. untouched (f r v) = untouched r" and "length column = length rows"
  shows "map untouched (map (\<lambda>(r, v). f r v) (zip rows column)) = map untouched rows"
  using assms(2) by (induction column rows rule: list_induct2) (simp_all add: assms(1))

lemma normalized_zip:
  "map (\<lambda>r. normalized_row r (AQI r)) (map (\<lambda>(r, v). r\<lparr>AQI := v\<rparr>) (zip rows column))
     = map (\<lambda>(r, v). normalized_row r v) (zip rows column)"
  by (simp add: normalized_row_def case_prod_beta)

lemma coerced:
  assumes "and_then (to_numeric (map AQI rows)) (assign_AQI rows) = Inr rows'"
  shows "\<exists>column. to_numeric (map AQI rows) = Inr column \<and> length column = length rows
           \<and> rows' = map (\<lambda>(r, v). r\<lparr>AQI := v\<rparr>) (zip rows column)"
proof (cases "to_numeric (map AQI rows)")
  case (Inl e)
  with assms show ?thesis by simp
next
  case (Inr column)
  with assms have "assign_AQI rows column = Inr rows'" by simp
  from assign_AQI_rows [OF this] Inr show ?thesis by simp
qed

lemma process_table:
  "snd (process_for_display to_numeric h df) = h(df := snd (process_for_display to_numeric h df) df)"
  by (auto simp: process_for_display_def normalization_eq split: sum.splits)

lemma process_untouched:
  "map untouched (snd (process_for_display to_numeric h df) df)
     = map untouched (filter has_subset (h df))"
proof (cases "h df = []")
  case True
  then show ?thesis by (simp add: process_for_display_def)
next
  case False
  let ?kept = "filter has_subset (h df)"
  show ?thesis
  proof (cases "and_then (to_numeric (map AQI ?kept)) (assign_AQI ?kept)")
    case (Inl e)
    with False show ?thesis by (simp add: process_for_display_def normalization_eq)
  next
    case (Inr rows)
    from coerced [of to_numeric "?kept" rows, OF Inr] obtain column where len: "length column = length ?kept"
      and rows: "rows = map (\<lambda>(r, v). r\<lparr>AQI := v\<rparr>) (zip ?kept column)"
      by blast
    have u1: "map untouched rows = map untouched ?kept"
      unfolding rows by (rule untouched_zip [OF _ len]) (simp add: untouched_def)
    have u2: "map untouched (map (\<lambda>r. normalized_row r (AQI r)) rows) = map untouched rows"
      by (simp add: untouched_def normalized_row_def)
    show ?thesis
    proof (cases "rows = []")
      case True
      with u1 False Inr show ?thesis by (simp add: process_for_display_def normalization_eq)
    next
      case nonempty: False
      with u1 u2 False Inr show ?thesis by (simp add: process_for_display_def normalization_eq)
    qed
  qed
qed

lemma process_completed:
  assumes "fst (process_for_display to_numeric h df) = None" and "h df \<noteq> []"
  shows "\<exists>column. to_numeric (map AQI (filter has_subset (h df))) = Inr column
           \<and> length column = length (filter has_subset (h df))
           \<and> snd (process_for_display to_numeric h df) df
               = map (\<lambda>(r, v). normalized_row r v) (zip (filter has_subset (h df)) column)"
proof -
  let ?kept = "filter has_subset (h df)"
  from assms obtain rows where r: "and_then (to_numeric (map AQI ?kept)) (assign_AQI ?kept) = Inr rows"
    and ne: "rows \<noteq> []"
    by (auto simp: process_for_display_def normalization_eq split: sum.splits if_splits)
  from coerced [of to_numeric "?kept" rows, OF r] obtain column where c: "to_numeric (map AQI ?kept) = Inr column"
    and len: "length column = length ?kept"
    and rows: "rows = map (\<lambda>(r, v). r\<lparr>AQI := v\<rparr>) (zip ?kept column)"
    by blast
  have "snd (process_for_display to_numeric h df) df = map (\<lambda>r. normalized_row r (AQI r)) rows"
    using assms(2) r ne by (simp add: process_for_display_def normalization_eq)
  then have "snd (process_for_display to_numeric h df) df
        = map (\<lambda>(r, v). normalized_row r v) (zip ?kept column)"
    unfolding rows normalized_zip .
  with c len show ?thesis by blast
qed

lemma City_untouched: "map City xs = map fst (map untouched xs)"
  by (simp add: untouched_def)

lemma process_subseq:
  "subseq (map untouched (snd (process_for_display to_numeric h df) df)) (map untouched (h df))"
  unfolding process_untouched by (rule subseq_map) (rule subseq_filter_left)

text \<open>
  C8. Whatever the table at \<open>df\<close> holds and whatever pandas makes of the AQI column,
  after lines 137-143 the table holds the rows that \<^verbatim>\<open>dropna\<close> keeps, in the order they
  had: in the columns that the statements do not assign (city, latitude, longitude,
  timestamp) it is a subsequence of the table before, so it never has more rows and
  it has the same cities in the same order when no row is dropped. When the
  statements complete, each kept row has the AQI that the coercion gave it and the
  category and colour of that AQI.
\<close>

theorem normalization_keeps_order:
  "(\<exists>sub. subseq sub (h df)
        \<and> map untouched (snd (process_for_display to_numeric h df) df) = map untouched sub)
   \<and> length (snd (process_for_display to_numeric h df) df) \<le> length (h df)
   \<and> subseq (map City (snd (process_for_display to_numeric h df) df)) (map City (h df))
   \<and> (list_all has_subset (h df) \<longrightarrow>
        map City (snd (process_for_display to_numeric h df) df) = map City (h df))
   \<and> (fst (process_for_display to_numeric h df) = None \<and> h df \<noteq> [] \<longrightarrow>
        (\<exists>column. to_numeric (map AQI (filter has_subset (h df))) = Inr column
           \<and> length column = length (filter has_subset (h df))
           \<and> snd (process_for_display to_numeric h df) df
               = map (\<lambda>(r, v). normalized_row r v) (zip (filter has_subset (h df)) column)))"
proof -
  let ?after = "snd (process_for_display to_numeric h df) df"
  let ?kept = "filter has_subset (h df)"
  have a: "\<exists>sub. subseq sub (h df) \<and> map untouched ?after = map untouched sub"
    using process_untouched [of to_numeric h df] subseq_filter_left [of has_subset "h df"]
    by blast
  have "length (map untouched ?after) \<le> length (map untouched (h df))"
    using process_subseq by (rule list_emb_length)
  then have b: "length ?after \<le> length (h df)" by simp
  have c: "subseq (map City ?after) (map City (h df))"
    unfolding City_untouched using process_subseq by (rule subseq_map)
  have d: "list_all has_subset (h df) \<longrightarrow> map City ?after = map City (h df)"
    unfolding City_untouched process_untouched by (simp add: list_all_iff)
  have e: "fst (process_for_display to_numeric h df) = None \<and> h df \<noteq> [] \<longrightarrow>
        (\<exists>column. to_numeric (map AQI ?kept) = Inr column \<and> length column = length ?kept
           \<and> ?after = map (\<lambda>(r, v). normalized_row r v) (zip ?kept column))"
    using process_completed [of to_numeric h df] by blast
  show ?thesis
    using a b c d e by (intro conjI)
qed

theorem three_cities_keep_their_order:
  "map City
     (snd (process_for_display sample_to_numeric
        (one_table [sample_row ''Delhi'' (PInt 310) (PFloat (Finite 28.6)),
                    sample_row ''Mumbai'' (PInt 75) (PFloat (Finite 19.1)),
                    sample_row ''Kolkata'' (PInt 120) (PFloat (Finite 22.6))]) 0) 0)
   = [''Delhi'', ''Mumbai'', ''Kolkata'']"
  using normalization_keeps_order [of
      "one_table [sample_row ''Delhi'' (PInt 310) (PFloat (Finite 28.6)),
                  sample_row ''Mumbai'' (PInt 75) (PFloat (Finite 19.1)),
                  sample_row ''Kolkata'' (PInt 120) (PFloat (Finite 22.6))]" 0 sample_to_numeric]
  by (simp add: one_table_def sample_row_def has_subset_def isna_def)

text \<open>
  C6 (as amended). Lines 141-143 change the table in place: whatever pandas makes of
  the AQI column, afterwards only the object that \<open>df\<close> refers to can differ from
  before, it holds the rows that \<^verbatim>\<open>dropna\<close> keeps, unchanged in the columns that are not
  assigned, and when the statements complete each of these rows has its coerced AQI and
  its category and colour. No new table is made.
\<close>

theorem normalization_in_place:
  "snd (process_for_display to_numeric h df)
     = h(df := snd (process_for_display to_numeric h df) df)
   \<and> map untouched (snd (process_for_display to_numeric h df) df)
       = map untouched (filter has_subset (h df))
   \<and> (fst (process_for_display to_numeric h df) = None \<and> h df \<noteq> [] \<longrightarrow>
        (\<exists>column. to_numeric (map AQI (filter has_subset (h df))) = Inr column
           \<and> length column = length (filter has_subset (h df))
           \<and> snd (process_for_display to_numeric h df) df
               = map (\<lambda>(r, v). normalized_row r v) (zip (filter has_subset (h df)) column)))"
  using process_table [of to_numeric h df] process_untouched [of to_numeric h df]
    process_completed [of to_numeric h df]
  by blast

lemma sample_after:
  "process_for_display sample_to_numeric
     (one_table [sample_row ''Delhi'' (PInt 75) (PFloat (Finite 28.6)),
                 sample_row ''Mumbai'' (PInt 120) PNone]) 0
   = (None,
      one_table [(sample_row ''Delhi'' (PInt 75) (PFloat (Finite 28.6)))
                   \<lparr>Category := Some ''Moderate'', Color := Some ''#FFDE33''\<rparr>])"
  by (simp add: process_for_display_def normalization_eq one_table_def sample_row_def
      has_subset_def isna_def sample_to_numeric_def assign_AQI_def normalized_row_def
      get_aqi_category_def between_def)

theorem normalization_in_place_example:
  "snd (process_for_display sample_to_numeric
        (one_table [sample_row ''Delhi'' (PInt 75) (PFloat (Finite 28.6)),
                    sample_row ''Mumbai'' (PInt 120) PNone]) 0) 0
     = [normalized_row (sample_row ''Delhi'' (PInt 75) (PFloat (Finite 28.6))) (PInt 75)]
   \<and> snd (process_for_display sample_to_numeric
        (one_table [sample_row ''Delhi'' (PInt 75) (PFloat (Finite 28.6)),
                    sample_row ''Mumbai'' (PInt 120) PNone]) 0) 1
     = []"
proof -
  let ?h = "one_table [sample_row ''Delhi'' (PInt 75) (PFloat (Finite 28.6)),
                       sample_row ''Mumbai'' (PInt 120) PNone]"
  note inst = normalization_in_place [of sample_to_numeric ?h 0]
  have completed: "fst (process_for_display sample_to_numeric ?h 0) = None \<and> ?h 0 \<noteq> []"
    using sample_after by (simp add: one_table_def)
  with inst obtain column where
    c: "sample_to_numeric (map AQI (filter has_subset (?h 0))) = Inr column"
    and after: "snd (process_for_display sample_to_numeric ?h 0) 0
          = map (\<lambda>(r, v). normalized_row r v) (zip (filter has_subset (?h 0)) column)"
    by blast
  from c have "column = [PInt 75]"
    by (auto simp: one_table_def sample_to_numeric_def sample_row_def has_subset_def isna_def)
  with after have first: "snd (process_for_display sample_to_numeric ?h 0) 0
      = [normalized_row (sample_row ''Delhi'' (PInt 75) (PFloat (Finite 28.6))) (PInt 75)]"
    by (simp add: one_table_def sample_row_def has_subset_def isna_def)
  from inst have "snd (process_for_display sample_to_numeric ?h 0) 1
      = (?h(0 := snd (process_for_display sample_to_numeric ?h 0) 0)) 1"
    by (metis (no_types))
  then have "snd (process_for_display sample_to_numeric ?h 0) 1 = []"
    by (simp add: one_table_def)
  with first show ?thesis by blast
qed

theorem input_table_is_changed:
  "one_table [sample_row ''Delhi'' (PInt 75) (PFloat (Finite 28.6)),
              sample_row ''Mumbai'' (PInt 120) PNone] 0
     = [sample_row ''Delhi'' (PInt 75) (PFloat (Finite 28.6)), sample_row ''Mumbai'' (PInt 120) PNone]
   \<and> snd (process_for_display sample_to_numeric
        (one_table [sample_row ''Delhi'' (PInt 75) (PFloat (Finite 28.6)),
                    sample_row ''Mumbai'' (PInt 120) PNone]) 0) 0
     = [(sample_row ''Delhi'' (PInt 75) (PFloat (Finite 28.6)))
          \<lparr>Category := Some ''Moderate'', Color := Some ''#FFDE33''\<rparr>]
   \<and> snd (process_for_display sample_to_numeric
        (one_table [sample_row ''Delhi'' (PInt 75) (PFloat (Finite 28.6)),
                    sample_row ''Mumbai'' (PInt 120) PNone]) 0) 0
     \<noteq> one_table [sample_row ''Delhi'' (PInt 75) (PFloat (Finite 28.6)),
                    sample_row ''Mumbai'' (PInt 120) PNone] 0"
  using sample_after by (simp add: one_table_def sample_row_def)

text \<open>
  C2. After lines 137-143 no row of the table lacks a latitude or a longitude. The AQI
  is another matter: \<^verbatim>\<open>dropna\<close> runs before \<^verbatim>\<open>to_numeric\<close>, so a row whose AQI is the
  string "-", which is not missing and which pandas cannot read as a number, is kept,
  and its AQI becomes NaN with the category "Unknown".
\<close>

theorem unreadable_aqi_survives:
  "(\<forall>r\<in>set (snd (process_for_display to_numeric h df) df).
      \<not> isna (Latitude r) \<and> \<not> isna (Longitude r))
   \<and> (to_numeric [PStr ''-''] = Inr [PFloat NaN] \<and> \<not> isna (Latitude r) \<and> \<not> isna (Longitude r)
        \<and> h df = [r\<lparr>AQI := PStr ''-''\<rparr>] \<longrightarrow>
        process_for_display to_numeric h df
          = (None, h(df := [r\<lparr>AQI := PFloat NaN, Category := Some ''Unknown'',
                              Color := Some ''#808080''\<rparr>])))"
proof -
  have "\<not> isna (Latitude r) \<and> \<not> isna (Longitude r)"
    if "r \<in> set (snd (process_for_display to_numeric h df) df)" for r
  proof -
    from that have "untouched r \<in> set (map untouched (snd (process_for_display to_numeric h df) df))"
      by simp
    then have "untouched r \<in> set (map untouched (filter has_subset (h df)))"
      by (simp only: process_untouched)
    then obtain r' where "has_subset r'" and "untouched r' = untouched r"
      by auto
    then show ?thesis by (simp add: has_subset_def untouched_def)
  qed
  moreover have "process_for_display to_numeric h df
          = (None, h(df := [r\<lparr>AQI := PFloat NaN, Category := Some ''Unknown'',
                              Color := Some ''#808080''\<rparr>]))"
    if "to_numeric [PStr ''-''] = Inr [PFloat NaN]" and "\<not> isna (Latitude r)"
      and "\<not> isna (Longitude r)" and "h df = [r\<lparr>AQI := PStr ''-''\<rparr>]"
    using that
    by (simp add: process_for_display_def normalization_eq has_subset_def isna_def
        assign_AQI_def normalized_row_def get_aqi_category_def between_def)
  ultimately show ?thesis by blast
qed

theorem dash_aqi_example:
  "process_for_display sample_to_numeric
     (one_table [sample_row ''Delhi'' (PStr ''-'') (PFloat (Finite 28.6))]) 0
   = (None,
      one_table [(sample_row ''Delhi'' (PFloat NaN) (PFloat (Finite 28.6)))
                   \<lparr>Category := Some ''Unknown'', Color := Some ''#808080''\<rparr>])
   \<and> isna (PFloat NaN)"
proof -
  have "sample_to_numeric [PStr ''-''] = Inr [PFloat NaN]"
    by (simp add: sample_to_numeric_def)
  then show ?thesis
    using unreadable_aqi_survives [of sample_to_numeric
        "one_table [sample_row ''Delhi'' (PStr ''-'') (PFloat (Finite 28.6))]" 0
        "sample_row ''Delhi'' (PStr ''-'') (PFloat (Finite 28.6))"]
    by (simp add: one_table_def sample_row_def isna_def)
qed

section \<open>The freshness window\<close>

lemma cache_hit:
  "cache = Some e \<Longrightarrow> now - stamp e < 600 \<Longrightarrow>
   cached_fetch_all_cities_data cache now tok net repr cities = Inr ((batch e, []), cache)"
  by (simp add: cached_fetch_all_cities_data_def)

lemma cache_stale:
  "cache = Some e \<Longrightarrow> 600 \<le> now - stamp e \<Longrightarrow>
   cached_fetch_all_cities_data cache now tok net repr cities = refresh now tok net repr cities"
  by (simp add: cached_fetch_all_cities_data_def)

lemma refresh_entry:
  "refresh now tok net repr cities = Inr ((b, evs), cache') \<Longrightarrow>
   fetch_all_cities_data tok net repr cities = Inr (b, evs) \<and> cache' = Some \<lparr>batch = b, stamp = now\<rparr>"
  by (cases "fetch_all_cities_data tok net repr cities") (auto simp: refresh_def)

lemma call_leaves_entry:
  assumes "cached_fetch_all_cities_data cache now tok net repr cities = Inr ((b, evs), cache')"
  shows "\<exists>e. cache' = Some e \<and> batch e = b"
proof (cases cache)
  case None
  with assms have "refresh now tok net repr cities = Inr ((b, evs), cache')"
    by (simp add: cached_fetch_all_cities_data_def)
  from refresh_entry [OF this] show ?thesis by simp
next
  case (Some e)
  show ?thesis
  proof (cases "now - stamp e < 600")
    case True
    with Some assms show ?thesis by (auto simp: cached_fetch_all_cities_data_def)
  next
    case False
    with Some assms have "refresh now tok net repr cities = Inr ((b, evs), cache')"
      by (simp add: cached_fetch_all_cities_data_def)
    from refresh_entry [OF this] show ?thesis by simp
  qed
qed

text \<open>
  C9, on the cache as the specification describes it. A call made while the age of the
  cached batch is below 600 seconds returns that batch and the cache as they are, sends
  no request and does not look at the network. A call made once the age has reached 600
  seconds is a full refresh: a pass of \<^verbatim>\<open>fetch_all_cities_data\<close>, whose batch replaces the
  entry whole. So after any call that returns, a second call within the window returns
  the same batch, whatever the network has become.
\<close>

theorem fresh_cache_is_served:
  "(cache = Some e \<and> now - stamp e < 600 \<longrightarrow>
      cached_fetch_all_cities_data cache now tok net repr cities = Inr ((batch e, []), cache))
   \<and> (cache = Some e \<and> 600 \<le> now - stamp e \<longrightarrow>
        cached_fetch_all_cities_data cache now tok net repr cities
          = and_then (fetch_all_cities_data tok net repr cities)
              (\<lambda>(b, evs). Inr ((b, evs), Some \<lparr>batch = b, stamp = now\<rparr>)))
   \<and> (cached_fetch_all_cities_data cache now tok net repr cities = Inr ((b, evs), cache') \<longrightarrow>
        (\<exists>e'. cache' = Some e' \<and> batch e' = b
           \<and> (\<forall>later net'. later - stamp e' < 600 \<longrightarrow>
                 cached_fetch_all_cities_data cache' later tok net' repr cities
                   = Inr ((b, []), cache'))))"
proof -
  have third: "\<exists>e'. cache' = Some e' \<and> batch e' = b
           \<and> (\<forall>later net'. later - stamp e' < 600 \<longrightarrow>
                 cached_fetch_all_cities_data cache' later tok net' repr cities
                   = Inr ((b, []), cache'))"
    if "cached_fetch_all_cities_data cache now tok net repr cities = Inr ((b, evs), cache')"
  proof -
    from call_leaves_entry [OF that] obtain e' where e': "cache' = Some e'" "batch e' = b"
      by blast
    then show ?thesis using cache_hit [of cache' e'] by auto
  qed
  show ?thesis
    using cache_hit [of cache e now tok net repr cities]
      cache_stale [of cache e now tok net repr cities] third
    by (auto simp: refresh_def)
qed

lemma offline_pass:
  "fetch_all_cities_data (Some ''t'') offline no_repr [(''Delhi'', ''delhi'')]
     = Inr (([], [''Could not fetch data for Delhi: Network error: Connection refused'']),
            [Progress 0 1 ''Fetching data for all cities...'',
             HttpGet ''https://api.waqi.info/feed/delhi/?token=t'',
             Progress 1 1 ''Fetching data for Delhi...'', Sleep, ProgressEmpty])"
  by (simp add: fetch_all_cities_data_def get_aqi_data_def not_token_def Let_def try_body_def
      offline_def feed_url_def could_not_fetch_def py_str_def)

theorem two_calls_within_the_window:
  "cached_fetch_all_cities_data None 1000 (Some ''t'') offline no_repr [(''Delhi'', ''delhi'')]
     = Inr ((([], [''Could not fetch data for Delhi: Network error: Connection refused'']),
             [Progress 0 1 ''Fetching data for all cities...'',
              HttpGet ''https://api.waqi.info/feed/delhi/?token=t'',
              Progress 1 1 ''Fetching data for Delhi...'', Sleep, ProgressEmpty]),
            Some \<lparr>batch = ([], [''Could not fetch data for Delhi: Network error: Connection refused'']),
                  stamp = 1000\<rparr>)
   \<and> cached_fetch_all_cities_data
        (Some \<lparr>batch = ([], [''Could not fetch data for Delhi: Network error: Connection refused'']),
               stamp = 1000\<rparr>)
        1599 (Some ''t'') (three_down PNone) no_repr [(''Delhi'', ''delhi'')]
     = Inr ((([], [''Could not fetch data for Delhi: Network error: Connection refused'']), []),
            Some \<lparr>batch = ([], [''Could not fetch data for Delhi: Network error: Connection refused'']),
                  stamp = 1000\<rparr>)
   \<and> cached_fetch_all_cities_data
        (Some \<lparr>batch = ([], [''Could not fetch data for Delhi: Network error: Connection refused'']),
               stamp = 1000\<rparr>)
        1600 (Some ''t'') offline no_repr [(''Delhi'', ''delhi'')]
     = Inr ((([], [''Could not fetch data for Delhi: Network error: Connection refused'']),
             [Progress 0 1 ''Fetching data for all cities...'',
              HttpGet ''https://api.waqi.info/feed/delhi/?token=t'',
              Progress 1 1 ''Fetching data for Delhi...'', Sleep, ProgressEmpty]),
            Some \<lparr>batch = ([], [''Could not fetch data for Delhi: Network error: Connection refused'']),
                  stamp = 1600\<rparr>)"
proof -
  let ?b = "([] :: row list, [''Could not fetch data for Delhi: Network error: Connection refused''])"
  let ?e = "\<lparr>batch = ?b, stamp = 1000\<rparr>"
  let ?cs = "[(''Delhi'', ''delhi'')]"
  have first: "cached_fetch_all_cities_data None 1000 (Some ''t'') offline no_repr ?cs
     = Inr ((?b, [Progress 0 1 ''Fetching data for all cities...'',
              HttpGet ''https://api.waqi.info/feed/delhi/?token=t'',
              Progress 1 1 ''Fetching data for Delhi...'', Sleep, ProgressEmpty]), Some ?e)"
    by (simp add: cached_fetch_all_cities_data_def refresh_def offline_pass)
  have second: "cached_fetch_all_cities_data (Some ?e) 1599 (Some ''t'') (three_down PNone) no_repr ?cs
     = Inr ((?b, []), Some ?e)"
    using fresh_cache_is_served [of "Some ?e" ?e 1599 "Some ''t''" "three_down PNone" no_repr ?cs]
    by simp
  have third: "cached_fetch_all_cities_data (Some ?e) 1600 (Some ''t'') offline no_repr ?cs
     = Inr ((?b, [Progress 0 1 ''Fetching data for all cities...'',
              HttpGet ''https://api.waqi.info/feed/delhi/?token=t'',
              Progress 1 1 ''Fetching data for Delhi...'', Sleep, ProgressEmpty]),
            Some \<lparr>batch = ?b, stamp = 1600\<rparr>)"
    using fresh_cache_is_served [of "Some ?e" ?e 1600 "Some ''t''" offline no_repr ?cs]
    by (simp add: offline_pass)
  from first second third show ?thesis by (intro conjI)
qed

end
